theory Spec2Isabelle
  imports Complex_Main "HOL-Library.AList" "HOL-Library.Multiset" "HOL-Library.Monad_Syntax"
begin

section \<open>Python values received off the wire\<close>

text \<open>
  One inbound frame is a JSON object, decoded by \<open>json.loads\<close> into a Python \<open>dict\<close>
  whose keys are strings. A dict keeps its keys in insertion order, without duplicates;
  it is an association list here, read with \<^const>\<open>map_of\<close>, written with
  \<^const>\<open>AList.update\<close> (an existing key keeps its place, a new key goes last) and
  shrunk with \<^const>\<open>AList.delete\<close>. A Python \<open>str\<close> is a \<^typ>\<open>string\<close>; the code
  only ever inspects ASCII characters of it. A Python \<open>float\<close> is carried as the rational
  it denotes, or as one of the three non-finite values that \<open>json.loads\<close> accepts.
\<close>

datatype pyfloat = Finite rat | PosInf | NegInf | NaN

datatype json =
    JNull
  | JBool bool
  | JInt int
  | JFloat pyfloat
  | JStr string
  | JList "json list"
  | JObj "(string \<times> json) list"

type_synonym envelope = "(string \<times> json) list"

datatype error =
    ValueError
  | KeyError string
  | IndexError
  | AttributeError
  | ValidationError
  | TypeError
  | RuntimeError

text \<open>Sequencing of fallible steps: the first exception ends the computation.\<close>

definition ebind :: "error + 'a \<Rightarrow> ('a \<Rightarrow> error + 'b) \<Rightarrow> error + 'b" where
  "ebind m f = (case m of Inl e \<Rightarrow> Inl e | Inr x \<Rightarrow> f x)"

text \<open>Truth value of a Python object, as \<open>not x\<close> and \<open>if x\<close> test it.\<close>

fun truthy :: "json \<Rightarrow> bool" where
  "truthy JNull = False"
| "truthy (JBool b) = b"
| "truthy (JInt i) = (i \<noteq> 0)"
| "truthy (JFloat f) = (case f of Finite q \<Rightarrow> q \<noteq> 0 | _ \<Rightarrow> True)"
| "truthy (JStr s) = (s \<noteq> [])"
| "truthy (JList xs) = (xs \<noteq> [])"
| "truthy (JObj kvs) = (kvs \<noteq> [])"

text \<open>\<open>d.get(k)\<close>, \<open>d.get(k, default)\<close> and \<open>d[k]\<close>.\<close>

definition get :: "envelope \<Rightarrow> string \<Rightarrow> json" where
  "get d k = (case map_of d k of None \<Rightarrow> JNull | Some v \<Rightarrow> v)"

definition get_default :: "envelope \<Rightarrow> string \<Rightarrow> json \<Rightarrow> json" where
  "get_default d k dflt = (case map_of d k of None \<Rightarrow> dflt | Some v \<Rightarrow> v)"

definition getitem :: "envelope \<Rightarrow> string \<Rightarrow> error + json" where
  "getitem d k = (case map_of d k of None \<Rightarrow> Inl (KeyError k) | Some v \<Rightarrow> Inr v)"

text \<open>\<open>xs[i]\<close> for a non-negative index.\<close>

definition index :: "'a list \<Rightarrow> nat \<Rightarrow> error + 'a" where
  "index xs i = (if i < length xs then Inr (xs ! i) else Inl IndexError)"

subsection \<open>String methods\<close>

definition startswith :: "string \<Rightarrow> string \<Rightarrow> bool" where
  "startswith s p = (take (length p) s = p)"

text \<open>
  \<open>s.partition(sep)\<close> for a non-empty separator: the text before and after the first
  occurrence of \<open>sep\<close>, if there is one.
\<close>

fun partition_at :: "string \<Rightarrow> string \<Rightarrow> (string \<times> string) option" where
  "partition_at sep [] = None"
| "partition_at sep (c # cs) =
     (if startswith (c # cs) sep then Some ([], drop (length sep) (c # cs))
      else (case partition_at sep cs of
              None \<Rightarrow> None
            | Some (a, b) \<Rightarrow> Some (c # a, b)))"

text \<open>\<open>s.split(sep, 1)\<close>: one or two pieces.\<close>

definition split1 :: "string \<Rightarrow> string \<Rightarrow> string list" where
  "split1 s sep = (case partition_at sep s of None \<Rightarrow> [s] | Some (a, b) \<Rightarrow> [a, b])"

text \<open>\<open>s.split(" ")\<close>: cut at every single space, empty pieces kept.\<close>

fun split_space :: "string \<Rightarrow> string list" where
  "split_space [] = [[]]"
| "split_space (c # cs) =
     (if c = CHR '' '' then [] # split_space cs
      else (case split_space cs of
              [] \<Rightarrow> [[c]]
            | w # ws \<Rightarrow> (c # w) # ws))"

text \<open>
  \<open>s.split()\<close>: cut at runs of whitespace, no empty pieces. \<open>isspace\<close> lists the
  whitespace code points below 256.
\<close>

definition isspace :: "char \<Rightarrow> bool" where
  "isspace c = (of_char c \<in> set [9, 10, 11, 12, 13, 28, 29, 30, 31, 32, 133, 160 :: nat])"

fun tokens :: "string \<Rightarrow> string \<Rightarrow> string list" where
  "tokens cur [] = (if cur = [] then [] else [cur])"
| "tokens cur (c # cs) =
     (if isspace c then (if cur = [] then tokens [] cs else cur # tokens [] cs)
      else tokens (cur @ [c]) cs)"

definition split_ws :: "string \<Rightarrow> string list" where
  "split_ws s = tokens [] s"

text \<open>
  The same methods called on whatever object the envelope holds: a \<open>str\<close> has them all,
  a \<open>list\<close> has \<open>count\<close> only, anything else raises \<open>AttributeError\<close>.
\<close>

definition py_count_space :: "json \<Rightarrow> error + nat" where
  "py_count_space j =
     (case j of
        JStr s \<Rightarrow> Inr (count_list s CHR '' '')
      | JList xs \<Rightarrow> Inr (count_list xs (JStr '' ''))
      | _ \<Rightarrow> Inl AttributeError)"

definition py_split1 :: "json \<Rightarrow> string \<Rightarrow> error + string list" where
  "py_split1 j sep = (case j of JStr s \<Rightarrow> Inr (split1 s sep) | _ \<Rightarrow> Inl AttributeError)"

definition py_split_space :: "json \<Rightarrow> error + string list" where
  "py_split_space j = (case j of JStr s \<Rightarrow> Inr (split_space s) | _ \<Rightarrow> Inl AttributeError)"

definition py_split_ws :: "json \<Rightarrow> error + string list" where
  "py_split_ws j = (case j of JStr s \<Rightarrow> Inr (split_ws s) | _ \<Rightarrow> Inl AttributeError)"

definition py_startswith :: "json \<Rightarrow> string \<Rightarrow> error + bool" where
  "py_startswith j p = (case j of JStr s \<Rightarrow> Inr (startswith s p) | _ \<Rightarrow> Inl AttributeError)"

section \<open>Nickname validity\<close>

definition ascii_letters :: string where
  "ascii_letters = ''abcdefghijklmnopqrstuvwxyzABCDEFGHIJKLMNOPQRSTUVWXYZ''"

definition digits :: string where
  "digits = ''0123456789''"

fun verify_chars :: "string \<Rightarrow> bool" where
  "verify_chars [] = True"
| "verify_chars (c # cs) =
     (if c \<notin> set (ascii_letters @ digits @ ''_'') then False else verify_chars cs)"

definition verifyNick :: "string \<Rightarrow> bool" where
  "verifyNick nick = (if length nick > 24 then False else verify_chars nick)"

text \<open>
  The rule as the specification words it: length 1 to 24 inclusive, every character an
  ASCII letter, a digit or an underscore (by code point).
\<close>

definition nick_char :: "char \<Rightarrow> bool" where
  "nick_char c =
     (let n = (of_char c :: nat)
      in (65 \<le> n \<and> n \<le> 90) \<or> (97 \<le> n \<and> n \<le> 122) \<or> (48 \<le> n \<and> n \<le> 57) \<or> n = 95)"

definition spec_nick_valid :: "string \<Rightarrow> bool" where
  "spec_nick_valid s = (1 \<le> length s \<and> length s \<le> 24 \<and> list_all nick_char s)"

section \<open>The event taxonomy\<close>

text \<open>
  Every inbound message shape is a pydantic model: a class whose constructor checks the
  keyword arguments it is given against the declared field types and either builds the
  object or raises \<open>ValidationError\<close>. Unknown keywords are ignored, a field declared
  with an alias is read under the alias only, a field with a default may be absent.

  How a scalar field type accepts or converts a JSON value is pydantic's business, not
  this repository's; it is a parameter of the model. \<open>Literal\<close>, \<open>Optional\<close>, \<open>List\<close>
  and nested models are structural and written out.
\<close>

record validators =
  str_v :: "json \<Rightarrow> string option"
  int_v :: "json \<Rightarrow> int option"
  bool_v :: "json \<Rightarrow> bool option"
  bool_or_str_v :: "json \<Rightarrow> (bool + string) option"
  str_or_bool_v :: "json \<Rightarrow> (bool + string) option"

text \<open>The validators that accept a value of exactly the declared type and nothing else.\<close>

definition exact :: validators where
  "exact =
     \<lparr> str_v = (\<lambda>j. case j of JStr s \<Rightarrow> Some s | _ \<Rightarrow> None),
       int_v = (\<lambda>j. case j of JInt i \<Rightarrow> Some i | _ \<Rightarrow> None),
       bool_v = (\<lambda>j. case j of JBool b \<Rightarrow> Some b | _ \<Rightarrow> None),
       bool_or_str_v = (\<lambda>j. case j of JBool b \<Rightarrow> Some (Inl b) | JStr s \<Rightarrow> Some (Inr s) | _ \<Rightarrow> None),
       str_or_bool_v = (\<lambda>j. case j of JBool b \<Rightarrow> Some (Inl b) | JStr s \<Rightarrow> Some (Inr s) | _ \<Rightarrow> None) \<rparr>"

definition literal :: "string list \<Rightarrow> json \<Rightarrow> string option" where
  "literal allowed j = (case j of JStr s \<Rightarrow> if s \<in> set allowed then Some s else None | _ \<Rightarrow> None)"

definition optional :: "(json \<Rightarrow> 'a option) \<Rightarrow> json \<Rightarrow> 'a option option" where
  "optional v j = (if j = JNull then Some None else map_option Some (v j))"

definition list_of :: "(json \<Rightarrow> 'a option) \<Rightarrow> json \<Rightarrow> 'a list option" where
  "list_of v j = (case j of JList xs \<Rightarrow> those (map v xs) | _ \<Rightarrow> None)"

definition dict_v :: "json \<Rightarrow> envelope option" where
  "dict_v j = (case j of JObj kvs \<Rightarrow> Some kvs | _ \<Rightarrow> None)"

text \<open>A required field, and a field with a default.\<close>

definition required :: "envelope \<Rightarrow> string \<Rightarrow> (json \<Rightarrow> 'a option) \<Rightarrow> 'a option" where
  "required d k v = (case map_of d k of None \<Rightarrow> None | Some j \<Rightarrow> v j)"

definition with_default :: "envelope \<Rightarrow> string \<Rightarrow> 'a \<Rightarrow> (json \<Rightarrow> 'a option) \<Rightarrow> 'a option" where
  "with_default d k dflt v = (case map_of d k of None \<Rightarrow> Some dflt | Some j \<Rightarrow> v j)"

definition utypes :: "string list" where
  "utypes = [''user'', ''mod'', ''admin'']"

record User =
  user_channel :: "string option"
  user_color :: "bool + string"
  user_hash :: string
  user_isBot :: bool
  user_isme :: bool
  user_level :: int
  user_nick :: string
  user_trip :: "string option"
  user_uType :: string
  user_userid :: int

record ChatPackage =
  chat_cmd :: string
  chat_channel :: string
  chat_color :: "string option"
  chat_level :: int
  chat_nick :: string
  chat_text :: string
  chat_time :: int
  chat_trip :: "string option"
  chat_uType :: string
  chat_userid :: int
  chat_customId :: "string option"

record EmotePackage =
  emote_channel :: string
  emote_cmd :: string
  emote_nick :: string
  emote_text :: string
  emote_content :: string
  emote_time :: int
  emote_trip :: "string option"
  emote_userid :: int

record InfoPackage =
  info_cmd :: string
  info_text :: string

record InvitePackage =
  invite_channel :: string
  invite_cmd :: string
  invite_from_nick :: string
  invite_invite_channel :: string
  invite_text :: string
  invite_time :: int
  invite_to_userid :: int
  invite_type :: string

record LockroomPackage =
  lockroom_cmd :: string
  lockroom_time :: int

record OnlineAddPackage =
  add_channel :: "string option"
  add_cmd :: string
  add_color :: "bool + string"
  add_hash :: string
  add_isBot :: bool
  add_level :: int
  add_nick :: string
  add_time :: int
  add_trip :: "string option"
  add_uType :: string
  add_userid :: int

record OnlineRemovePackage =
  remove_nick :: string
  remove_cmd :: string
  remove_time :: int
  remove_userid :: int

record OnlineSetPackage =
  onlineset_cmd :: string
  onlineset_channel :: string
  onlineset_nicks :: "string list"
  onlineset_time :: int
  onlineset_users :: "User list"

record RateLimitedPackage =
  rl_cmd :: string
  rl_type :: string
  rl_text :: string

record UpdateMessagePackage =
  updmsg_channel :: string
  updmsg_cmd :: string
  updmsg_customId :: string
  updmsg_level :: int
  updmsg_mode :: string
  updmsg_text :: string
  updmsg_time :: int
  updmsg_userid :: int

record UpdateUserPackage =
  upd_channel :: "string option"
  upd_cmd :: string
  upd_color :: "bool + string"
  upd_hash :: "string option"
  upd_isBot :: "bool option"
  upd_level :: "int option"
  upd_nick :: "string option"
  upd_time :: "int option"
  upd_trip :: "string option"
  upd_uType :: "string option"
  upd_userid :: "int option"

record WarnPackage =
  warn_cmd :: string
  warn_text :: string

record WhisperPackage =
  whisper_channel :: string
  whisper_cmd :: string
  whisper_nick :: string
  whisper_text :: string
  whisper_content :: string
  whisper_time :: int
  whisper_userid_to :: int
  whisper_trip :: "string option"
  whisper_type :: string

record WhisperSentPackage =
  sent_channel :: string
  sent_cmd :: string
  sent_userid_from :: int
  sent_text :: string
  sent_content :: string
  sent_time :: int
  sent_userid_to :: int
  sent_type :: string

record ChangeNickPackage =
  changenick_old_nick :: string
  changenick_new_nick :: string
  changenick_text :: string
  changenick_cmd :: string
  changenick_channel :: string
  changenick_time :: int

record CaptchaPackage =
  captcha_channel :: string
  captcha_cmd :: string
  captcha_text :: string
  captcha_time :: int

datatype event =
    Chat ChatPackage
  | Emote EmotePackage
  | Info InfoPackage
  | Invite InvitePackage
  | OnlineAdd OnlineAddPackage
  | OnlineRemove OnlineRemovePackage
  | OnlineSet OnlineSetPackage
  | UpdateUser UpdateUserPackage
  | Warn WarnPackage
  | Whisper WhisperPackage
  | UpdateMessage UpdateMessagePackage
  | ChangeNick ChangeNickPackage
  | Captcha CaptchaPackage
  | Lockroom LockroomPackage
  | WhisperSent WhisperSentPackage
  | Uncatched envelope
  | RateLimited RateLimitedPackage

subsection \<open>Constructors\<close>

text \<open>
  \<open>new_X V kwargs\<close> is the call \<open>X(**kwargs)\<close>: \<open>None\<close> stands for the
  \<open>ValidationError\<close> raised when some field is missing or rejected.
\<close>

definition new_User :: "validators \<Rightarrow> envelope \<Rightarrow> User option" where
  "new_User V d = do {
     channel \<leftarrow> with_default d ''channel'' None (optional (str_v V));
     color \<leftarrow> required d ''color'' (str_or_bool_v V);
     hash \<leftarrow> required d ''hash'' (str_v V);
     isBot \<leftarrow> required d ''isBot'' (bool_v V);
     isme \<leftarrow> required d ''isme'' (bool_v V);
     level \<leftarrow> required d ''level'' (int_v V);
     nick \<leftarrow> required d ''nick'' (str_v V);
     trip \<leftarrow> with_default d ''trip'' None (optional (str_v V));
     uType \<leftarrow> required d ''uType'' (literal utypes);
     userid \<leftarrow> required d ''userid'' (int_v V);
     Some \<lparr> user_channel = channel, user_color = color, user_hash = hash, user_isBot = isBot,
            user_isme = isme, user_level = level, user_nick = nick, user_trip = trip,
            user_uType = uType, user_userid = userid \<rparr> }"

definition user_v :: "validators \<Rightarrow> json \<Rightarrow> User option" where
  "user_v V j = (case j of JObj kvs \<Rightarrow> new_User V kvs | _ \<Rightarrow> None)"

definition new_ChatPackage :: "validators \<Rightarrow> envelope \<Rightarrow> ChatPackage option" where
  "new_ChatPackage V d = do {
     cmd \<leftarrow> required d ''cmd'' (literal [''chat'']);
     channel \<leftarrow> required d ''channel'' (str_v V);
     color \<leftarrow> with_default d ''color'' None (optional (str_v V));
     level \<leftarrow> required d ''level'' (int_v V);
     nick \<leftarrow> required d ''nick'' (str_v V);
     text \<leftarrow> required d ''text'' (str_v V);
     time \<leftarrow> required d ''time'' (int_v V);
     trip \<leftarrow> with_default d ''trip'' None (optional (str_v V));
     uType \<leftarrow> required d ''uType'' (literal utypes);
     userid \<leftarrow> required d ''userid'' (int_v V);
     customId \<leftarrow> with_default d ''customId'' None (optional (str_v V));
     Some \<lparr> chat_cmd = cmd, chat_channel = channel, chat_color = color, chat_level = level,
            chat_nick = nick, chat_text = text, chat_time = time, chat_trip = trip,
            chat_uType = uType, chat_userid = userid, chat_customId = customId \<rparr> }"

definition new_EmotePackage :: "validators \<Rightarrow> envelope \<Rightarrow> EmotePackage option" where
  "new_EmotePackage V d = do {
     channel \<leftarrow> required d ''channel'' (str_v V);
     cmd \<leftarrow> required d ''cmd'' (literal [''emote'']);
     nick \<leftarrow> required d ''nick'' (str_v V);
     text \<leftarrow> required d ''text'' (str_v V);
     content \<leftarrow> required d ''content'' (str_v V);
     time \<leftarrow> required d ''time'' (int_v V);
     trip \<leftarrow> with_default d ''trip'' None (optional (str_v V));
     userid \<leftarrow> required d ''userid'' (int_v V);
     Some \<lparr> emote_channel = channel, emote_cmd = cmd, emote_nick = nick, emote_text = text,
            emote_content = content, emote_time = time, emote_trip = trip,
            emote_userid = userid \<rparr> }"

definition new_InfoPackage :: "validators \<Rightarrow> envelope \<Rightarrow> InfoPackage option" where
  "new_InfoPackage V d = do {
     cmd \<leftarrow> required d ''cmd'' (literal [''info'']);
     text \<leftarrow> required d ''text'' (str_v V);
     Some \<lparr> info_cmd = cmd, info_text = text \<rparr> }"

definition new_InvitePackage :: "validators \<Rightarrow> envelope \<Rightarrow> InvitePackage option" where
  "new_InvitePackage V d = do {
     channel \<leftarrow> required d ''channel'' (str_v V);
     cmd \<leftarrow> required d ''cmd'' (literal [''invite'']);
     from_nick \<leftarrow> required d ''from'' (str_v V);
     invite_channel \<leftarrow> required d ''inviteChannel'' (str_v V);
     text \<leftarrow> required d ''text'' (str_v V);
     time \<leftarrow> required d ''time'' (int_v V);
     to_userid \<leftarrow> required d ''to_userid'' (int_v V);
     type \<leftarrow> required d ''type'' (literal [''invite'']);
     Some \<lparr> invite_channel = channel, invite_cmd = cmd, invite_from_nick = from_nick,
            invite_invite_channel = invite_channel, invite_text = text, invite_time = time,
            invite_to_userid = to_userid, invite_type = type \<rparr> }"

definition new_LockroomPackage :: "validators \<Rightarrow> envelope \<Rightarrow> LockroomPackage option" where
  "new_LockroomPackage V d = do {
     cmd \<leftarrow> required d ''cmd'' (literal [''info'']);
     time \<leftarrow> required d ''time'' (int_v V);
     Some \<lparr> lockroom_cmd = cmd, lockroom_time = time \<rparr> }"

definition new_OnlineAddPackage :: "validators \<Rightarrow> envelope \<Rightarrow> OnlineAddPackage option" where
  "new_OnlineAddPackage V d = do {
     channel \<leftarrow> with_default d ''channel'' None (optional (str_v V));
     cmd \<leftarrow> required d ''cmd'' (literal [''onlineAdd'']);
     color \<leftarrow> required d ''color'' (bool_or_str_v V);
     hash \<leftarrow> required d ''hash'' (str_v V);
     isBot \<leftarrow> required d ''isBot'' (bool_v V);
     level \<leftarrow> required d ''level'' (int_v V);
     nick \<leftarrow> required d ''nick'' (str_v V);
     time \<leftarrow> required d ''time'' (int_v V);
     trip \<leftarrow> with_default d ''trip'' None (optional (str_v V));
     uType \<leftarrow> required d ''uType'' (literal utypes);
     userid \<leftarrow> required d ''userid'' (int_v V);
     Some \<lparr> add_channel = channel, add_cmd = cmd, add_color = color, add_hash = hash,
            add_isBot = isBot, add_level = level, add_nick = nick, add_time = time,
            add_trip = trip, add_uType = uType, add_userid = userid \<rparr> }"

definition new_OnlineRemovePackage :: "validators \<Rightarrow> envelope \<Rightarrow> OnlineRemovePackage option" where
  "new_OnlineRemovePackage V d = do {
     nick \<leftarrow> required d ''nick'' (str_v V);
     cmd \<leftarrow> required d ''cmd'' (literal [''onlineRemove'']);
     time \<leftarrow> required d ''time'' (int_v V);
     userid \<leftarrow> required d ''userid'' (int_v V);
     Some \<lparr> remove_nick = nick, remove_cmd = cmd, remove_time = time, remove_userid = userid \<rparr> }"

definition new_OnlineSetPackage :: "validators \<Rightarrow> envelope \<Rightarrow> OnlineSetPackage option" where
  "new_OnlineSetPackage V d = do {
     cmd \<leftarrow> required d ''cmd'' (literal [''onlineSet'']);
     channel \<leftarrow> required d ''channel'' (str_v V);
     nicks \<leftarrow> required d ''nicks'' (list_of (str_v V));
     time \<leftarrow> required d ''time'' (int_v V);
     users \<leftarrow> required d ''users'' (list_of (user_v V));
     Some \<lparr> onlineset_cmd = cmd, onlineset_channel = channel, onlineset_nicks = nicks,
            onlineset_time = time, onlineset_users = users \<rparr> }"

definition rl_types :: "string list" where
  "rl_types = [''CHANNEL_RL'', ''COLOR_RL'', ''CHANGENICK_RL'', ''MESSAGE_RL'', ''GLOBAL_RL'']"

definition new_RateLimitedPackage :: "validators \<Rightarrow> envelope \<Rightarrow> RateLimitedPackage option" where
  "new_RateLimitedPackage V d = do {
     cmd \<leftarrow> required d ''cmd'' (literal [''warn'']);
     type \<leftarrow> required d ''type'' (literal rl_types);
     text \<leftarrow> required d ''text'' (str_v V);
     Some \<lparr> rl_cmd = cmd, rl_type = type, rl_text = text \<rparr> }"

definition new_UpdateMessagePackage :: "validators \<Rightarrow> envelope \<Rightarrow> UpdateMessagePackage option" where
  "new_UpdateMessagePackage V d = do {
     channel \<leftarrow> required d ''channel'' (str_v V);
     cmd \<leftarrow> required d ''cmd'' (literal [''updateMessage'']);
     customId \<leftarrow> required d ''customId'' (str_v V);
     level \<leftarrow> required d ''level'' (int_v V);
     mode \<leftarrow> required d ''mode'' (literal [''overwrite'', ''prepend'', ''append'', ''complete'']);
     text \<leftarrow> required d ''text'' (str_v V);
     time \<leftarrow> required d ''time'' (int_v V);
     userid \<leftarrow> required d ''userid'' (int_v V);
     Some \<lparr> updmsg_channel = channel, updmsg_cmd = cmd, updmsg_customId = customId,
            updmsg_level = level, updmsg_mode = mode, updmsg_text = text, updmsg_time = time,
            updmsg_userid = userid \<rparr> }"

definition new_UpdateUserPackage :: "validators \<Rightarrow> envelope \<Rightarrow> UpdateUserPackage option" where
  "new_UpdateUserPackage V d = do {
     channel \<leftarrow> with_default d ''channel'' None (optional (str_v V));
     cmd \<leftarrow> required d ''cmd'' (literal [''updateUser'']);
     color \<leftarrow> required d ''color'' (bool_or_str_v V);
     hash \<leftarrow> with_default d ''hash'' None (optional (str_v V));
     isBot \<leftarrow> with_default d ''isBot'' None (optional (bool_v V));
     level \<leftarrow> with_default d ''level'' None (optional (int_v V));
     nick \<leftarrow> with_default d ''nick'' None (optional (str_v V));
     time \<leftarrow> with_default d ''time'' None (optional (int_v V));
     trip \<leftarrow> with_default d ''trip'' None (optional (str_v V));
     uType \<leftarrow> with_default d ''uType'' None (optional (literal utypes));
     userid \<leftarrow> with_default d ''userid'' None (optional (int_v V));
     Some \<lparr> upd_channel = channel, upd_cmd = cmd, upd_color = color, upd_hash = hash,
            upd_isBot = isBot, upd_level = level, upd_nick = nick, upd_time = time,
            upd_trip = trip, upd_uType = uType, upd_userid = userid \<rparr> }"

definition new_WarnPackage :: "validators \<Rightarrow> envelope \<Rightarrow> WarnPackage option" where
  "new_WarnPackage V d = do {
     cmd \<leftarrow> required d ''cmd'' (literal [''warn'']);
     text \<leftarrow> required d ''text'' (str_v V);
     Some \<lparr> warn_cmd = cmd, warn_text = text \<rparr> }"

definition new_WhisperPackage :: "validators \<Rightarrow> envelope \<Rightarrow> WhisperPackage option" where
  "new_WhisperPackage V d = do {
     channel \<leftarrow> required d ''channel'' (str_v V);
     cmd \<leftarrow> required d ''cmd'' (literal [''info'']);
     nick \<leftarrow> required d ''from'' (str_v V);
     text \<leftarrow> required d ''text'' (str_v V);
     content \<leftarrow> required d ''content'' (str_v V);
     time \<leftarrow> required d ''time'' (int_v V);
     userid_to \<leftarrow> required d ''userid_to'' (int_v V);
     trip \<leftarrow> with_default d ''trip'' None (optional (str_v V));
     type \<leftarrow> required d ''type'' (literal [''whisper'']);
     Some \<lparr> whisper_channel = channel, whisper_cmd = cmd, whisper_nick = nick,
            whisper_text = text, whisper_content = content, whisper_time = time,
            whisper_userid_to = userid_to, whisper_trip = trip, whisper_type = type \<rparr> }"

definition new_WhisperSentPackage :: "validators \<Rightarrow> envelope \<Rightarrow> WhisperSentPackage option" where
  "new_WhisperSentPackage V d = do {
     channel \<leftarrow> required d ''channel'' (str_v V);
     cmd \<leftarrow> required d ''cmd'' (literal [''info'']);
     userid_from \<leftarrow> required d ''from'' (int_v V);
     text \<leftarrow> required d ''text'' (str_v V);
     content \<leftarrow> required d ''content'' (str_v V);
     time \<leftarrow> required d ''time'' (int_v V);
     userid_to \<leftarrow> required d ''to'' (int_v V);
     type \<leftarrow> with_default d ''type'' ''whisper'' (str_v V);
     Some \<lparr> sent_channel = channel, sent_cmd = cmd, sent_userid_from = userid_from,
            sent_text = text, sent_content = content, sent_time = time,
            sent_userid_to = userid_to, sent_type = type \<rparr> }"

definition new_ChangeNickPackage :: "validators \<Rightarrow> envelope \<Rightarrow> ChangeNickPackage option" where
  "new_ChangeNickPackage V d = do {
     old_nick \<leftarrow> required d ''old_nick'' (str_v V);
     new_nick \<leftarrow> required d ''new_nick'' (str_v V);
     text \<leftarrow> required d ''text'' (str_v V);
     cmd \<leftarrow> required d ''cmd'' (literal [''changenick'']);
     channel \<leftarrow> required d ''channel'' (str_v V);
     time \<leftarrow> required d ''time'' (int_v V);
     Some \<lparr> changenick_old_nick = old_nick, changenick_new_nick = new_nick,
            changenick_text = text, changenick_cmd = cmd, changenick_channel = channel,
            changenick_time = time \<rparr> }"

definition new_CaptchaPackage :: "validators \<Rightarrow> envelope \<Rightarrow> CaptchaPackage option" where
  "new_CaptchaPackage V d = do {
     channel \<leftarrow> required d ''channel'' (str_v V);
     cmd \<leftarrow> required d ''cmd'' (literal [''captcha'']);
     text \<leftarrow> required d ''text'' (str_v V);
     time \<leftarrow> required d ''time'' (int_v V);
     Some \<lparr> captcha_channel = channel, captcha_cmd = cmd, captcha_text = text,
            captcha_time = time \<rparr> }"

text \<open>The constructed object wrapped as an event, or the \<open>ValidationError\<close>.\<close>

definition construct :: "('a \<Rightarrow> event) \<Rightarrow> 'a option \<Rightarrow> error + event" where
  "construct tag r = (case r of None \<Rightarrow> Inl ValidationError | Some x \<Rightarrow> Inr (tag x))"

section \<open>The envelope classifier\<close>

definition RL_MAPPING :: "(string \<times> string) list" where
  "RL_MAPPING =
     [(''You are joining channels too fast. Wait a moment and try again.'', ''CHANNEL_RL''),
      (''You are changing colors too fast. Wait a moment before trying again.'', ''COLOR_RL''),
      (''You are changing nicknames too fast. Wait a moment before trying again.'', ''CHANGENICK_RL''),
      (''You are sending too much text. Wait a moment and try again.'' @ [CHR 0x0A] @
         ''Press the up arrow key to restore your last message.'', ''MESSAGE_RL''),
      (''You are rate-limited or blocked.'', ''GLOBAL_RL'')]"

text \<open>\<open>RL_MAPPING[key]\<close>: a missing key raises, an unhashable key is a type error.\<close>

definition rl_lookup :: "json \<Rightarrow> error + string" where
  "rl_lookup key =
     (case key of
        JStr s \<Rightarrow> (case map_of RL_MAPPING s of None \<Rightarrow> Inl (KeyError s) | Some t \<Rightarrow> Inr t)
      | JList _ \<Rightarrow> Inl TypeError
      | JObj _ \<Rightarrow> Inl TypeError
      | _ \<Rightarrow> Inl (KeyError []))"

text \<open>The texts that the \<open>warn\<close> branch takes for rate-limit warnings.\<close>

definition rate_limit_texts :: "string list" where
  "rate_limit_texts =
     [''You are joining channels too fast. Wait a moment and try again.'',
      ''You are changing colors too fast. Wait a moment before trying again.'',
      ''You are sending invites too fast. Wait a moment before trying again.'',
      ''You are changing nicknames too fast. Wait a moment before trying again.'',
      ''You are sending too much text. Wait a moment and try again.'' @ [CHR 0x0A] @
        ''Press the up arrow key to restore your last message.'',
      ''You are rate-limited or blocked.'']"

definition lockroom_text :: string where
  "lockroom_text = ''You have been denied access to that channel and have been moved somewhere else. Retry later or wait for a mod to move you.''"

text \<open>
  The four-part test for a nickname change, with Python's short-circuit \<open>and\<close>: a later
  part is evaluated, and can raise, only when the earlier parts hold.
\<close>

definition is_changenick :: "envelope \<Rightarrow> error + bool" where
  "is_changenick data =
     (let text = get_default data ''text'' (JStr []) in
      ebind (py_count_space text) (\<lambda>n.
      if n \<noteq> 3 then Inr False else
      ebind (py_split1 text '' '') (\<lambda>parts.
      ebind (index parts 1) (\<lambda>rest.
      if \<not> startswith rest ''is now'' then Inr False else
      ebind (py_split_ws text) (\<lambda>ws.
      ebind (index ws 0) (\<lambda>old.
      if \<not> verifyNick old then Inr False else
      ebind (index ws 3) (\<lambda>new.
      Inr (verifyNick new))))))))"

text \<open>
  \<open>json_to_object\<close> changes the dict it is given (it adds and deletes keys before it
  calls a constructor), so the model returns the dict as the call leaves it next to the
  result: the constructed event, or the exception raised.
\<close>

definition info_untyped :: "validators \<Rightarrow> envelope \<Rightarrow> (error + event) \<times> envelope" where
  "info_untyped V data =
     (case is_changenick data of
        Inl e \<Rightarrow> (Inl e, data)
      | Inr True \<Rightarrow>
          (let text = get_default data ''text'' (JStr []) in
           case ebind (py_split_space text) (\<lambda>ws. index ws 0) of
             Inl e \<Rightarrow> (Inl e, data)
           | Inr old \<Rightarrow>
               (let data1 = AList.update ''old_nick'' (JStr old) data in
                case ebind (py_split_space text) (\<lambda>ws. index ws 3) of
                  Inl e \<Rightarrow> (Inl e, data1)
                | Inr new \<Rightarrow>
                    (let data2 = AList.update ''new_nick'' (JStr new) data1
                     in (construct ChangeNick (new_ChangeNickPackage V data2), data2))))
      | Inr False \<Rightarrow>
          (if get_default data ''text'' (JStr []) = JStr lockroom_text then
             (case getitem data ''time'' of
                Inl e \<Rightarrow> (Inl e, data)
              | Inr t \<Rightarrow>
                  (construct Lockroom
                     (new_LockroomPackage V [(''cmd'', JStr ''info''), (''time'', t)]), data))
           else (construct Info (new_InfoPackage V data), data)))"

definition info_whisper :: "validators \<Rightarrow> envelope \<Rightarrow> (error + event) \<times> envelope" where
  "info_whisper V data =
     (case py_startswith (get_default data ''text'' (JStr [])) ''You whispered to'' of
        Inl e \<Rightarrow> (Inl e, data)
      | Inr True \<Rightarrow>
          (case ebind (getitem data ''text'') (\<lambda>t. ebind (py_split1 t '': '') (\<lambda>ps. index ps 1)) of
             Inl e \<Rightarrow> (Inl e, data)
           | Inr c \<Rightarrow>
               (let data1 = AList.update ''content'' (JStr c) data
                in (construct WhisperSent (new_WhisperSentPackage V data1), data1)))
      | Inr False \<Rightarrow>
          (case getitem data ''to'' of
             Inl e \<Rightarrow> (Inl e, data)
           | Inr to \<Rightarrow>
               (let data1 = AList.delete ''to'' (AList.update ''userid_to'' to data) in
                case ebind (getitem data1 ''text'') (\<lambda>t. ebind (py_split1 t '': '') (\<lambda>ps. index ps 1)) of
                  Inl e \<Rightarrow> (Inl e, data1)
                | Inr c \<Rightarrow>
                    (let data2 = AList.update ''content'' (JStr c) data1
                     in (construct Whisper (new_WhisperPackage V data2), data2)))))"

definition info_invite :: "validators \<Rightarrow> envelope \<Rightarrow> (error + event) \<times> envelope" where
  "info_invite V data =
     (case getitem data ''from'' of
        Inl e \<Rightarrow> (Inl e, data)
      | Inr from \<Rightarrow>
          (let data1 = AList.update ''from_nick'' from data in
           case getitem data1 ''to'' of
             Inl e \<Rightarrow> (Inl e, data1)
           | Inr to \<Rightarrow>
               (let data2 = AList.update ''to_userid'' to data1;
                    data3 = AList.delete ''from'' data2;
                    data4 = AList.delete ''to'' data3
                in (construct Invite (new_InvitePackage V data4), data4))))"

definition json_to_object :: "validators \<Rightarrow> envelope \<Rightarrow> (error + event) \<times> envelope" where
  "json_to_object V data =
     (if \<not> truthy (get data ''cmd'') then (Inl ValueError, data)
      else let command = get data ''cmd'' in
        if command = JStr ''chat'' then (construct Chat (new_ChatPackage V data), data)
        else if command = JStr ''emote'' then
          (case ebind (getitem data ''text'') (\<lambda>t. ebind (py_split1 t '' '') (\<lambda>ps. index ps 1)) of
             Inl e \<Rightarrow> (Inl e, data)
           | Inr c \<Rightarrow>
               (let data1 = AList.update ''content'' (JStr c) data
                in (construct Emote (new_EmotePackage V data1), data1)))
        else if command = JStr ''info'' then
          (if \<not> truthy (get data ''type'') then info_untyped V data
           else if get data ''type'' = JStr ''whisper'' then info_whisper V data
           else if get data ''type'' = JStr ''invite'' then info_invite V data
           else (Inr (Uncatched data), data))
        else if command = JStr ''onlineSet'' then
          (construct OnlineSet (new_OnlineSetPackage V data), data)
        else if command = JStr ''onlineAdd'' then
          (construct OnlineAdd (new_OnlineAddPackage V data), data)
        else if command = JStr ''onlineRemove'' then
          (construct OnlineRemove (new_OnlineRemovePackage V data), data)
        else if command = JStr ''updateUser'' then
          (construct UpdateUser (new_UpdateUserPackage V data), data)
        else if command = JStr ''updateMessage'' then
          (construct UpdateMessage (new_UpdateMessagePackage V data), data)
        else if command = JStr ''captcha'' then
          (construct Captcha (new_CaptchaPackage V data), data)
        else if command = JStr ''warn'' then
          (if get data ''text'' \<in> set (map JStr rate_limit_texts) then
             (case rl_lookup (get_default data ''text'' (JStr [])) of
                Inl e \<Rightarrow> (Inl e, data)
              | Inr ty \<Rightarrow>
                  (construct RateLimited
                     (new_RateLimitedPackage V
                        [(''cmd'', JStr ''warn''), (''type'', JStr ty),
                         (''text'', get_default data ''text'' (JStr []))]), data))
           else (construct Warn (new_WarnPackage V data), data))
        else (Inr (Uncatched data), data))"

section \<open>The self\<close>

text \<open>
  Handlers and commands are callables supplied by the user of the library. The model
  identifies a user's callable by a value of type \<open>'h\<close> (two references are equal when
  they are the same function object) and records each invocation; what a callable does
  is outside the library, and the three things the engine can observe of it are
  parameters: whether it is a coroutine function, and whether a call of it raises.
  The bot's own \<open>_internal_handler\<close>, a coroutine method, is a callable of its own.
\<close>

datatype event_type =
    ChatPackage_t | EmotePackage_t | InfoPackage_t | InvitePackage_t | OnlineAddPackage_t
  | OnlineRemovePackage_t | OnlineSetPackage_t | UpdateUserPackage_t | WarnPackage_t
  | WhisperPackage_t | UpdateMessagePackage_t | ChangeNickPackage_t | CaptchaPackage_t
  | LockroomPackage_t | WhisperSentPackage_t | UncatchedPackage_t | RateLimitedPackage_t

fun type_of :: "event \<Rightarrow> event_type" where
  "type_of (Chat _) = ChatPackage_t"
| "type_of (Emote _) = EmotePackage_t"
| "type_of (Info _) = InfoPackage_t"
| "type_of (Invite _) = InvitePackage_t"
| "type_of (OnlineAdd _) = OnlineAddPackage_t"
| "type_of (OnlineRemove _) = OnlineRemovePackage_t"
| "type_of (OnlineSet _) = OnlineSetPackage_t"
| "type_of (UpdateUser _) = UpdateUserPackage_t"
| "type_of (Warn _) = WarnPackage_t"
| "type_of (Whisper _) = WhisperPackage_t"
| "type_of (UpdateMessage _) = UpdateMessagePackage_t"
| "type_of (ChangeNick _) = ChangeNickPackage_t"
| "type_of (Captcha _) = CaptchaPackage_t"
| "type_of (Lockroom _) = LockroomPackage_t"
| "type_of (WhisperSent _) = WhisperSentPackage_t"
| "type_of (Uncatched _) = UncatchedPackage_t"
| "type_of (RateLimited _) = RateLimitedPackage_t"

text \<open>A key of \<open>event_functions\<close>: a string such as \<open>"__GLOBAL__"\<close>, or an event class.\<close>

datatype selector = Key string | Class event_type

definition GLOBAL :: selector where
  "GLOBAL = Key ''__GLOBAL__''"

datatype 'h callable = Internal | Fn 'h

record 'h Plugin =
  plugin_commands :: "string list"
  plugin_handlers :: "(selector \<times> 'h callable list) list"

record 'h Bot =
  nick :: string
  killed :: bool
  users :: "User list"
  event_functions :: "(selector \<times> 'h callable list) list"
  commands :: "(string \<times> 'h) list"
  loaded_plugins :: "(string \<times> 'h Plugin) list"

record 'h CommandContext =
  ctx_sender :: User
  ctx_triggered_via :: string
  ctx_text :: string
  ctx_args :: string
  ctx_event :: event

record 'h env =
  iscoroutinefunction :: "'h \<Rightarrow> bool"
  handler_raises :: "'h \<Rightarrow> event list \<Rightarrow> bool"
  command_raises :: "'h \<Rightarrow> 'h CommandContext \<Rightarrow> bool"

text \<open>What the engine does that is visible from outside, in the order it does it.\<close>

datatype 'h action =
    Called "'h callable" "event list"
  | Started "'h callable" "event list"
  | Invoked 'h "'h CommandContext"
  | Warning

definition init_Bot :: "string \<Rightarrow> 'h Bot" where
  "init_Bot n =
     \<lparr> nick = n, killed = False, users = [],
       event_functions = [(GLOBAL, [Internal])],
       commands = [], loaded_plugins = [] \<rparr>"

subsection \<open>Session directory\<close>

definition get_users_by_nick :: "'h Bot \<Rightarrow> string \<Rightarrow> User list" where
  "get_users_by_nick self n = filter (\<lambda>user. user_nick user = n) (users self)"

definition get_user_by_nick :: "'h Bot \<Rightarrow> string \<Rightarrow> User option" where
  "get_user_by_nick self n =
     (case get_users_by_nick self n of [] \<Rightarrow> None | user # _ \<Rightarrow> Some user)"

text \<open>
  \<open>target_user\<close> is a reference to the first object of \<open>self.users\<close> with the nickname;
  assigning to its attributes changes that element of the list in place.
\<close>

fun update_target :: "string \<Rightarrow> (User \<Rightarrow> User) \<Rightarrow> User list \<Rightarrow> User list" where
  "update_target n f [] = []"
| "update_target n f (user # rest) =
     (if user_nick user = n then f user # rest else user # update_target n f rest)"

text \<open>
  The loop over \<open>event.model_dump().items()\<close>, one step per field in declaration order.
  \<open>cmd\<close> and \<open>time\<close> are not attributes of a \<open>User\<close> and are skipped by the
  \<open>k in dir(target_user)\<close> test; \<open>color\<close> is never \<open>None\<close>.
\<close>

definition set_fields :: "UpdateUserPackage \<Rightarrow> User \<Rightarrow> User" where
  "set_fields e =
     (\<lambda>u. case upd_userid e of None \<Rightarrow> u
          | Some v \<Rightarrow> if v \<noteq> user_userid u then u\<lparr>user_userid := v\<rparr> else u) \<circ>
     (\<lambda>u. case upd_uType e of None \<Rightarrow> u
          | Some v \<Rightarrow> if v \<noteq> user_uType u then u\<lparr>user_uType := v\<rparr> else u) \<circ>
     (\<lambda>u. case upd_trip e of None \<Rightarrow> u
          | Some v \<Rightarrow> if Some v \<noteq> user_trip u then u\<lparr>user_trip := Some v\<rparr> else u) \<circ>
     (\<lambda>u. case upd_nick e of None \<Rightarrow> u
          | Some v \<Rightarrow> if v \<noteq> user_nick u then u\<lparr>user_nick := v\<rparr> else u) \<circ>
     (\<lambda>u. case upd_level e of None \<Rightarrow> u
          | Some v \<Rightarrow> if v \<noteq> user_level u then u\<lparr>user_level := v\<rparr> else u) \<circ>
     (\<lambda>u. case upd_isBot e of None \<Rightarrow> u
          | Some v \<Rightarrow> if v \<noteq> user_isBot u then u\<lparr>user_isBot := v\<rparr> else u) \<circ>
     (\<lambda>u. case upd_hash e of None \<Rightarrow> u
          | Some v \<Rightarrow> if v \<noteq> user_hash u then u\<lparr>user_hash := v\<rparr> else u) \<circ>
     (\<lambda>u. if upd_color e \<noteq> user_color u then u\<lparr>user_color := upd_color e\<rparr> else u) \<circ>
     (\<lambda>u. case upd_channel e of None \<Rightarrow> u
          | Some v \<Rightarrow> if Some v \<noteq> user_channel u then u\<lparr>user_channel := Some v\<rparr> else u)"

definition update_user :: "UpdateUserPackage \<Rightarrow> User list \<Rightarrow> User list" where
  "update_user e us =
     (case upd_nick e of
        None \<Rightarrow> us
      | Some n \<Rightarrow> if n = [] then us else update_target n (set_fields e) us)"

definition joined_user :: "OnlineAddPackage \<Rightarrow> User" where
  "joined_user e =
     \<lparr> user_channel = add_channel e, user_color = add_color e, user_hash = add_hash e,
       user_isBot = add_isBot e, user_isme = False, user_level = add_level e,
       user_nick = add_nick e, user_trip = add_trip e, user_uType = add_uType e,
       user_userid = add_userid e \<rparr>"

definition sync_users :: "'h Bot \<Rightarrow> event \<Rightarrow> User list" where
  "sync_users self event =
     (case event of
        OnlineSet e \<Rightarrow> onlineset_users e
      | OnlineAdd e \<Rightarrow> users self @ [joined_user e]
      | OnlineRemove e \<Rightarrow>
          (case get_user_by_nick self (remove_nick e) of
             None \<Rightarrow> users self
           | Some user \<Rightarrow> remove1 user (users self))
      | _ \<Rightarrow> users self)"

subsection \<open>Command routing\<close>

text \<open>
  The loop over \<open>self.commands.items()\<close> for a message \<open>text\<close> sent by \<open>sender\<close>.
  Everything between \<open>try\<close> and \<open>except\<close> that raises ends that one iteration with a
  warning: the sender missing from the directory, the argument split, the command itself.
\<close>

fun route :: "'h env \<Rightarrow> 'h Bot \<Rightarrow> string \<Rightarrow> string \<Rightarrow> string \<Rightarrow> event
    \<Rightarrow> (string \<times> 'h) list \<Rightarrow> 'h action list" where
  "route E self via text sender event [] = []"
| "route E self via text sender event (command # rest) =
     (if startswith text (fst command @ '' '') \<or> text = fst command then
        (case get_user_by_nick self sender of
           None \<Rightarrow> [Warning]
         | Some user \<Rightarrow>
             (case (if text \<noteq> fst command then index (split1 text '' '') 1 else Inr [])
              of Inl e \<Rightarrow> [Warning]
               | Inr args \<Rightarrow>
                   (let ctx = \<lparr> ctx_sender = user, ctx_triggered_via = via, ctx_text = text,
                                ctx_args = args, ctx_event = event \<rparr>
                    in Invoked (snd command) ctx #
                       (if command_raises E (snd command) ctx then [Warning] else []))))
      else [])
     @ route E self via text sender event rest"

definition internal_handler :: "'h env \<Rightarrow> 'h Bot \<Rightarrow> event \<Rightarrow> 'h Bot \<times> 'h action list" where
  "internal_handler E self event =
     (let self1 = self\<lparr>users := sync_users self event\<rparr>;
          chat = (case event of
                    Chat e \<Rightarrow> route E self1 ''chat'' (chat_text e) (chat_nick e) event (commands self1)
                  | _ \<Rightarrow> []);
          whisper = (case event of
                    Whisper e \<Rightarrow>
                      route E self1 ''whisper'' (whisper_content e) (whisper_nick e) event
                        (commands self1)
                  | _ \<Rightarrow> []);
          self2 = (case event of
                    UpdateUser e \<Rightarrow> self1\<lparr>users := update_user e (users self1)\<rparr>
                  | _ \<Rightarrow> self1)
      in (self2, chat @ whisper))"

subsection \<open>Dispatch\<close>

text \<open>
  \<open>_run_events\<close> walks the handler list of one selector. A plain function is called on the
  spot, inside \<open>try\<close>/\<open>except\<close>. For a coroutine function the call only builds the
  coroutine and \<open>create_task\<close> only schedules it: nothing of its body runs inside the
  \<open>try\<close>. The function returns what it did and the tasks it created.
\<close>

definition is_coroutine :: "'h env \<Rightarrow> 'h callable \<Rightarrow> bool" where
  "is_coroutine E f = (case f of Internal \<Rightarrow> True | Fn h \<Rightarrow> iscoroutinefunction E h)"

fun run_handlers :: "'h env \<Rightarrow> 'h callable list \<Rightarrow> event list
    \<Rightarrow> 'h action list \<times> ('h callable \<times> event list) list" where
  "run_handlers E [] args = ([], [])"
| "run_handlers E (function # rest) args =
     (let (acts, tasks) = run_handlers E rest args in
      if is_coroutine E function then (acts, (function, args) # tasks)
      else (case function of
              Fn h \<Rightarrow>
                (Called function args # (if handler_raises E h args then [Warning] else []) @ acts,
                 tasks)
            | Internal \<Rightarrow> (acts, tasks)))"

definition run_events :: "'h env \<Rightarrow> 'h Bot \<Rightarrow> selector \<Rightarrow> event list
    \<Rightarrow> 'h action list \<times> ('h callable \<times> event list) list" where
  "run_events E self event_type args =
     run_handlers E
       (case map_of (event_functions self) event_type of None \<Rightarrow> [] | Some fs \<Rightarrow> fs) args"

text \<open>
  The tasks of a \<open>TaskGroup\<close> start in the order of their creation, when the receive loop
  next suspends. \<open>_internal_handler\<close> runs the directory update and the command router.
  A user's coroutine that raises makes its task fail; the group then cancels its other
  tasks and the task that holds the \<open>async with\<close> block, and re-raises on exit. The model
  starts every task of the batch and reports whether one of them failed.
\<close>

fun run_tasks :: "'h env \<Rightarrow> 'h Bot \<Rightarrow> ('h callable \<times> event list) list
    \<Rightarrow> 'h Bot \<times> 'h action list \<times> bool" where
  "run_tasks E self [] = (self, [], False)"
| "run_tasks E self ((function, args) # rest) =
     (case function of
        Internal \<Rightarrow>
          (case args of
             [event] \<Rightarrow>
               (let (self1, acts1) = internal_handler E self event;
                    (self2, acts2, failed) = run_tasks E self1 rest
                in (self2, Started function args # acts1 @ acts2, failed))
           | _ \<Rightarrow>
               (let (self2, acts2, failed) = run_tasks E self rest
                in (self2, Started function args # acts2, True)))
      | Fn h \<Rightarrow>
          (let (self2, acts2, failed) = run_tasks E self rest
           in (self2, Started function args # acts2, handler_raises E h args \<or> failed)))"

text \<open>The events of which the bot's own are ignored.\<close>

fun nick_of :: "event \<Rightarrow> string option" where
  "nick_of (Chat e) = Some (chat_nick e)"
| "nick_of (Emote e) = Some (emote_nick e)"
| "nick_of (OnlineAdd e) = Some (add_nick e)"
| "nick_of (OnlineRemove e) = Some (remove_nick e)"
| "nick_of (Whisper e) = Some (whisper_nick e)"
| "nick_of _ = None"

datatype frame = Package envelope | EmptyFrame | ConnectionClosed

datatype status = Receiving | Finished | Failed

text \<open>
  One turn of the \<open>while\<close> loop of \<open>run\<close> on a decoded package: classify, drop the bot's
  own events, dispatch to the global and to the type-specific handlers, and let the
  tasks created run. \<open>Failed\<close> is the task group re-raising: \<open>run\<close> ends with that exception
  and reads no further frame.
\<close>

definition dispatch :: "'h env \<Rightarrow> 'h Bot \<Rightarrow> event \<Rightarrow> status \<times> 'h Bot \<times> 'h action list" where
  "dispatch E self event =
     (let (acts1, tasks1) = run_events E self GLOBAL [event];
          (acts2, tasks2) = run_events E self (Class (type_of event)) [event];
          (self1, acts3, failed) = run_tasks E self (tasks1 @ tasks2)
      in (if failed then Failed else Receiving, self1, acts1 @ acts2 @ acts3))"

definition on_package :: "'h env \<Rightarrow> validators \<Rightarrow> bool \<Rightarrow> 'h Bot \<Rightarrow> envelope
    \<Rightarrow> status \<times> 'h Bot \<times> 'h action list" where
  "on_package E V ignore_self self package_dict =
     (case fst (json_to_object V package_dict) of
        Inl e \<Rightarrow> (Receiving, self, [Warning])
      | Inr event \<Rightarrow>
          (if nick_of event = Some (nick self) \<and> ignore_self then (Receiving, self, [])
           else dispatch E self event))"

fun run :: "'h env \<Rightarrow> validators \<Rightarrow> bool \<Rightarrow> 'h Bot \<Rightarrow> frame list
    \<Rightarrow> status \<times> 'h Bot \<times> 'h action list" where
  "run E V ignore_self self [] = (if killed self then Finished else Receiving, self, [])"
| "run E V ignore_self self (fr # rest) =
     (if killed self then (Finished, self, [])
      else case fr of
        ConnectionClosed \<Rightarrow>
          (let self1 = self\<lparr>killed := True\<rparr>;
               (acts1, tasks1) = run_events E self1 (Key ''disconnect'') [];
               (self2, acts2, failed) = run_tasks E self1 tasks1
           in (if failed then Failed else Finished, self2, acts1 @ acts2))
      | EmptyFrame \<Rightarrow> (Finished, self\<lparr>killed := True\<rparr>, [])
      | Package package_dict \<Rightarrow>
          (case on_package E V ignore_self self package_dict of
             (Receiving, self1, acts1) \<Rightarrow>
               (let (st, self2, acts2) = run E V ignore_self self1 rest
                in (st, self2, acts1 @ acts2))
           | (st, self1, acts1) \<Rightarrow> (st, self1, acts1)))"

section \<open>Plugins\<close>

text \<open>
  An initializer is arbitrary code that is handed the bot: it returns normally or raises,
  and leaves the bot in some state either way. Importing a plugin by name is Python's
  business; its outcome is a parameter.
\<close>

type_synonym 'h initializer = "'h Bot \<Rightarrow> bool \<times> 'h Bot"

datatype 'h module = ImportError | NoPluginInit | NotCallable | PluginInit "'h initializer"

definition new_commands :: "(string \<times> 'h) list \<Rightarrow> (string \<times> 'h) list \<Rightarrow> string list" where
  "new_commands before after = filter (\<lambda>k. k \<notin> set (map fst before)) (map fst after)"

fun new_handlers :: "(selector \<times> nat) list \<Rightarrow> (selector \<times> 'h callable list) list
    \<Rightarrow> (selector \<times> 'h callable list) list" where
  "new_handlers before [] = []"
| "new_handlers before ((event_type, handlers) # rest) =
     (let before_count = (case map_of before event_type of None \<Rightarrow> 0 | Some n \<Rightarrow> n)
      in if length handlers > before_count
         then (event_type, drop before_count handlers) # new_handlers before rest
         else new_handlers before rest)"

definition load_plugin :: "(string \<Rightarrow> 'h module) \<Rightarrow> 'h Bot \<Rightarrow> string
    \<Rightarrow> 'h initializer option \<Rightarrow> 'h Bot" where
  "load_plugin import self plugin_name init_function =
     (let commands_before = commands self;
          event_handlers_before = map (\<lambda>(k, v). (k, length v)) (event_functions self);
          started =
            (case init_function of
               None \<Rightarrow>
                 (case import plugin_name of
                    PluginInit plugin_init \<Rightarrow> Some (plugin_init self)
                  | _ \<Rightarrow> None)
             | Some f \<Rightarrow> Some (f self))
      in case started of
           None \<Rightarrow> self
         | Some (raised, self1) \<Rightarrow>
             if raised then self1
             else self1\<lparr>loaded_plugins :=
                    AList.update plugin_name
                      \<lparr> plugin_commands = new_commands commands_before (commands self1),
                        plugin_handlers = new_handlers event_handlers_before (event_functions self1) \<rparr>
                      (loaded_plugins self1)\<rparr>)"

fun remove_commands :: "string list \<Rightarrow> (string \<times> 'h) list \<Rightarrow> (string \<times> 'h) list" where
  "remove_commands [] cs = cs"
| "remove_commands (command # rest) cs =
     remove_commands rest (if command \<in> fst ` set cs then AList.delete command cs else cs)"

fun remove_each :: "'a list \<Rightarrow> 'a list \<Rightarrow> 'a list" where
  "remove_each [] fs = fs"
| "remove_each (handler # rest) fs =
     remove_each rest (if handler \<in> set fs then remove1 handler fs else fs)"

fun remove_handlers :: "(selector \<times> 'h callable list) list \<Rightarrow> (selector \<times> 'h callable list) list
    \<Rightarrow> (selector \<times> 'h callable list) list" where
  "remove_handlers [] efs = efs"
| "remove_handlers ((event_type, handlers) # rest) efs =
     remove_handlers rest
       (case map_of efs event_type of
          None \<Rightarrow> efs
        | Some fs \<Rightarrow> AList.update event_type (remove_each handlers fs) efs)"

definition unload_plugin :: "'h Bot \<Rightarrow> string \<Rightarrow> 'h Bot" where
  "unload_plugin self plugin_name =
     (case map_of (loaded_plugins self) plugin_name of
        None \<Rightarrow> self
      | Some plugin_info \<Rightarrow>
          self\<lparr> commands := remove_commands (plugin_commands plugin_info) (commands self),
                event_functions := remove_handlers (plugin_handlers plugin_info) (event_functions self),
                loaded_plugins := AList.delete plugin_name (loaded_plugins self) \<rparr>)"

text \<open>The registration calls an initializer is meant to make.\<close>

definition register_event_function :: "selector \<Rightarrow> 'h callable \<Rightarrow> 'h Bot \<Rightarrow> 'h Bot" where
  "register_event_function event_type function self =
     (case map_of (event_functions self) event_type of
        Some fs \<Rightarrow> self\<lparr>event_functions := AList.update event_type (fs @ [function]) (event_functions self)\<rparr>
      | None \<Rightarrow> self\<lparr>event_functions := AList.update event_type [function] (event_functions self)\<rparr>)"

definition register_global_function :: "'h callable \<Rightarrow> 'h Bot \<Rightarrow> 'h Bot" where
  "register_global_function function self = register_event_function GLOBAL function self"

definition register_command :: "string \<Rightarrow> 'h \<Rightarrow> 'h Bot \<Rightarrow> 'h Bot" where
  "register_command prefix function self =
     self\<lparr>commands := AList.update prefix function (commands self)\<rparr>"

section \<open>Vocabulary of the statements\<close>



text \<open>
  An attribute update applied to a participant as the specification words it: every field
  present in the update takes the update's value, every absent field keeps its own.
\<close>

definition overwrite :: "UpdateUserPackage \<Rightarrow> User \<Rightarrow> User" where
  "overwrite e u =
     \<lparr> user_channel = (case upd_channel e of None \<Rightarrow> user_channel u | Some v \<Rightarrow> Some v),
       user_color = upd_color e,
       user_hash = (case upd_hash e of None \<Rightarrow> user_hash u | Some v \<Rightarrow> v),
       user_isBot = (case upd_isBot e of None \<Rightarrow> user_isBot u | Some v \<Rightarrow> v),
       user_isme = user_isme u,
       user_level = (case upd_level e of None \<Rightarrow> user_level u | Some v \<Rightarrow> v),
       user_nick = (case upd_nick e of None \<Rightarrow> user_nick u | Some v \<Rightarrow> v),
       user_trip = (case upd_trip e of None \<Rightarrow> user_trip u | Some v \<Rightarrow> Some v),
       user_uType = (case upd_uType e of None \<Rightarrow> user_uType u | Some v \<Rightarrow> v),
       user_userid = (case upd_userid e of None \<Rightarrow> user_userid u | Some v \<Rightarrow> v) \<rparr>"



text \<open>The message a command can be sent in: its channel, its text and its sender.\<close>

fun message :: "event \<Rightarrow> (string \<times> string \<times> string) option" where
  "message (Chat e) = Some (''chat'', chat_text e, chat_nick e)"
| "message (Whisper e) = Some (''whisper'', whisper_content e, whisper_nick e)"
| "message _ = None"


text \<open>The handler calls among the actions: made on the spot, or started as a task.\<close>

fun handled :: "'h action list \<Rightarrow> 'h callable list" where
  "handled [] = []"
| "handled (Called f args # rest) = f # handled rest"
| "handled (Started f args # rest) = f # handled rest"
| "handled (_ # rest) = handled rest"

text \<open>A Python dict has no key twice.\<close>

definition dicts :: "'h Bot \<Rightarrow> bool" where
  "dicts self =
     (distinct (map fst (commands self)) \<and> distinct (map fst (event_functions self)) \<and>
      distinct (map fst (loaded_plugins self)))"

text \<open>The handler list of a selector, empty when the selector has none.\<close>

definition handlers_of :: "'h Bot \<Rightarrow> selector \<Rightarrow> 'h callable list" where
  "handlers_of self sel = (case map_of (event_functions self) sel of None \<Rightarrow> [] | Some fs \<Rightarrow> fs)"

section \<open>Sample data\<close>

text \<open>Concrete participants, messages and callables, for the closed instances below.\<close>

definition participant :: "string \<Rightarrow> int \<Rightarrow> User" where
  "participant n i =
     \<lparr> user_channel = Some ''lounge'', user_color = Inl False, user_hash = ''c0ffee'',
       user_isBot = False, user_isme = False, user_level = 100, user_nick = n,
       user_trip = None, user_uType = ''user'', user_userid = i \<rparr>"

definition chat_from :: "string \<Rightarrow> string \<Rightarrow> ChatPackage" where
  "chat_from n t =
     \<lparr> chat_cmd = ''chat'', chat_channel = ''lounge'', chat_color = None, chat_level = 100,
       chat_nick = n, chat_text = t, chat_time = 1, chat_trip = None, chat_uType = ''user'',
       chat_userid = 7, chat_customId = None \<rparr>"

definition chat_envelope :: "string \<Rightarrow> string \<Rightarrow> envelope" where
  "chat_envelope n t =
     [(''cmd'', JStr ''chat''), (''channel'', JStr ''lounge''), (''level'', JInt 100),
      (''nick'', JStr n), (''text'', JStr t), (''time'', JInt 1), (''uType'', JStr ''user''),
      (''userid'', JInt 7)]"

definition level_update :: "string \<Rightarrow> int \<Rightarrow> UpdateUserPackage" where
  "level_update n l =
     \<lparr> upd_channel = None, upd_cmd = ''updateUser'', upd_color = Inr ''ff0000'',
       upd_hash = None, upd_isBot = None, upd_level = Some l, upd_nick = Some n,
       upd_time = None, upd_trip = None, upd_uType = None, upd_userid = None \<rparr>"

text \<open>
  Callables are numbered. In \<open>quiet\<close> every one is a coroutine function that returns;
  in \<open>faulty\<close> number 1 is a coroutine function that raises and number 2 is a plain
  function that raises.
\<close>

definition quiet :: "nat env" where
  "quiet = \<lparr> iscoroutinefunction = (\<lambda>h. True), handler_raises = (\<lambda>h args. False),
             command_raises = (\<lambda>h ctx. False) \<rparr>"

definition faulty :: "nat env" where
  "faulty = \<lparr> iscoroutinefunction = (\<lambda>h. h \<noteq> 2), handler_raises = (\<lambda>h args. h = 1 \<or> h = 2),
              command_raises = (\<lambda>h ctx. False) \<rparr>"

text \<open>
  A bot with one command, one handler of its user's and the record of an earlier plugin;
  and an initializer that registers two commands and one global handler.
\<close>

definition running_bot :: "nat Bot" where
  "running_bot =
     \<lparr> nick = ''bot'', killed = False, users = [participant ''alice'' 1],
       event_functions = [(GLOBAL, [Internal, Fn 1])],
       commands = [(''Ping'', 4)],
       loaded_plugins =
         [(''other'', \<lparr>plugin_commands = [''Ping''], plugin_handlers = [(GLOBAL, [Fn 1])]\<rparr>)] \<rparr>"

definition sample_init :: "nat initializer" where
  "sample_init self =
     (False,
      register_global_function (Fn 9)
        (register_command ''.hv b'' 8 (register_command ''.hv a'' 7 self)))"

text \<open>A bot with one handler for chat messages next to its own, and two chat messages.\<close>

definition chat_bot :: "nat \<Rightarrow> nat Bot" where
  "chat_bot h =
     \<lparr> nick = ''bot'', killed = False, users = [participant ''alice'' 1],
       event_functions = [(GLOBAL, [Internal]), (Class ChatPackage_t, [Fn h, Fn 3])],
       commands = [], loaded_plugins = [] \<rparr>"

definition two_chats :: "frame list" where
  "two_chats = [Package (chat_envelope ''alice'' ''one''), Package (chat_envelope ''alice'' ''two'')]"

section \<open>Facts about the Python helpers\<close>






section \<open>Nickname validity\<close>

lemma allowed_codes:
  "of_char ` set (ascii_letters @ digits @ ''_'') = ({65..90} \<union> {97..122} \<union> {48..57} \<union> {95} :: nat set)"
  unfolding ascii_letters_def digits_def
  apply (simp add: atLeastAtMost_def atLeast_def atMost_def)
  apply (rule set_eqI)
  apply simp
  apply arith
  done

lemma allowed_iff: "(c \<in> set (ascii_letters @ digits @ ''_'')) = nick_char c"
proof -
  have "(c \<in> set (ascii_letters @ digits @ ''_'')) =
        ((of_char c :: nat) \<in> of_char ` set (ascii_letters @ digits @ ''_''))"
    by (metis (no_types) image_iff of_char_eq_iff)
  also have "\<dots> = nick_char c"
    unfolding allowed_codes nick_char_def Let_def by auto
  finally show ?thesis .
qed

lemma verify_chars_iff: "verify_chars s = list_all nick_char s"
  by (induction s) (simp_all add: allowed_iff del: set_append)

text \<open>
  What \<open>verifyNick\<close> decides: at most 24 characters, each a letter, a digit or an
  underscore. There is no lower bound on the length.
\<close>

lemma verifyNick_iff: "verifyNick s = (length s \<le> 24 \<and> list_all nick_char s)"
  by (auto simp add: verifyNick_def verify_chars_iff)

lemma verifyNick_nonempty: "s \<noteq> [] \<Longrightarrow> verifyNick s = spec_nick_valid s"
  by (cases s) (auto simp add: verifyNick_iff spec_nick_valid_def)

text \<open>
  C6. The claim: \<open>verifyNick s\<close> holds exactly when \<open>s\<close> has 1 to 24 characters, all of
  them letters, digits or underscores. On the empty string the code answers \<open>True\<close>,
  and the rule answers \<open>False\<close>.
\<close>

theorem verifyNick_empty: "verifyNick [] = True \<and> spec_nick_valid [] = False"
  by (simp add: verifyNick_def spec_nick_valid_def)

section \<open>The classifier\<close>

lemmas classify_defs =
  json_to_object_def get_def get_default_def getitem_def ebind_def index_def
  py_split1_def split1_def py_count_space_def py_split_ws_def split_ws_def py_split_space_def
  py_startswith_def startswith_def isspace_def

subsection \<open>Warnings\<close>

text \<open>
  C3. The claim: a \<open>warn\<close> whose text is one of the five phrases of the rate-limit table
  is classified as rate-limited with the reason of the table, and every other \<open>warn\<close> is a
  generic warning. The membership test of the \<open>warn\<close> branch lists a sixth phrase, about
  invites, that the table \<open>RL_MAPPING\<close> does not have: on it the lookup raises \<open>KeyError\<close>
  and no event is returned.
\<close>

theorem warn_invites_text_raises:
  "json_to_object V
     [(''cmd'', JStr ''warn''),
      (''text'', JStr ''You are sending invites too fast. Wait a moment before trying again.'')]
   = (Inl (KeyError ''You are sending invites too fast. Wait a moment before trying again.''),
      [(''cmd'', JStr ''warn''),
       (''text'', JStr ''You are sending invites too fast. Wait a moment before trying again.'')])"
  by (simp add: classify_defs rate_limit_texts_def rl_lookup_def RL_MAPPING_def)

text \<open>On the five phrases of the table, and on any other text, the code does as claimed.\<close>

lemma warn_rate_limited:
  assumes "get d ''cmd'' = JStr ''warn''" "map_of d ''text'' = Some (JStr t)"
    "map_of RL_MAPPING t = Some ty" "str_v V (JStr t) = Some t"
  shows "fst (json_to_object V d) = Inr (RateLimited \<lparr>rl_cmd = ''warn'', rl_type = ty, rl_text = t\<rparr>)"
proof -
  from assms(3) have "t \<in> set rate_limit_texts" "ty \<in> set rl_types"
    by (auto simp add: RL_MAPPING_def rate_limit_texts_def rl_types_def split: if_splits)
  with assms show ?thesis
    by (simp add: json_to_object_def get_def get_default_def rl_lookup_def construct_def
        new_RateLimitedPackage_def required_def literal_def)
qed

lemma warn_generic:
  assumes "get d ''cmd'' = JStr ''warn''" "map_of d ''text'' = Some (JStr t)"
    "t \<notin> set rate_limit_texts" "str_v V (JStr t) = Some t"
  shows "fst (json_to_object V d) = Inr (Warn \<lparr>warn_cmd = ''warn'', warn_text = t\<rparr>)"
  using assms
  by (auto simp add: json_to_object_def get_def construct_def new_WarnPackage_def required_def
      literal_def split: option.splits)

subsection \<open>Nickname changes\<close>

text \<open>
  C5. The claim: an untagged \<open>info\<close> whose text has the shape \<open>old is now new\<close>, with both
  nicknames valid, is classified as a nickname change carrying \<open>old\<close> and \<open>new\<close>. The
  branch hands the envelope, whose \<open>cmd\<close> is \<open>info\<close>, to \<open>ChangeNickPackage\<close>, which
  declares \<open>cmd: Literal["changenick"]\<close>: the constructor rejects it. With any field
  validators, the envelope of the claim's example raises \<open>ValidationError\<close>.
\<close>

theorem changenick_rejected:
  "json_to_object V
     [(''cmd'', JStr ''info''), (''text'', JStr ''Alice is now Bob_2''),
      (''channel'', JStr ''lounge''), (''time'', JInt 1)]
   = (Inl ValidationError,
      [(''cmd'', JStr ''info''), (''text'', JStr ''Alice is now Bob_2''),
       (''channel'', JStr ''lounge''), (''time'', JInt 1),
       (''old_nick'', JStr ''Alice''), (''new_nick'', JStr ''Bob_2'')])"
  by (simp add: classify_defs info_untyped_def is_changenick_def
      verifyNick_def ascii_letters_def digits_def construct_def new_ChangeNickPackage_def
      required_def literal_def split: option.splits Option.bind_splits)

text \<open>More generally, no untagged \<open>info\<close> is ever classified as a nickname change.\<close>

lemma new_ChangeNickPackage_needs_cmd:
  "new_ChangeNickPackage V d = Some p \<Longrightarrow> map_of d ''cmd'' = Some (JStr ''changenick'')"
  by (auto simp add: new_ChangeNickPackage_def required_def literal_def
      split: option.splits Option.bind_splits json.splits if_splits)

lemma info_untyped_never_ChangeNick:
  assumes "get d ''cmd'' = JStr ''info''"
  shows "fst (info_untyped V d) \<noteq> Inr (ChangeNick p)"
proof
  assume a: "fst (info_untyped V d) = Inr (ChangeNick p)"
  then obtain old new where
    "new_ChangeNickPackage V
       (AList.update ''new_nick'' (JStr new) (AList.update ''old_nick'' (JStr old) d)) \<noteq> None"
    by (auto simp add: info_untyped_def construct_def Let_def
        split: sum.splits bool.splits if_splits option.splits)
  then obtain q where
    "new_ChangeNickPackage V
       (AList.update ''new_nick'' (JStr new) (AList.update ''old_nick'' (JStr old) d)) = Some q"
    by auto
  from new_ChangeNickPackage_needs_cmd[OF this]
  have "map_of d ''cmd'' = Some (JStr ''changenick'')"
    by (simp add: AList.update_conv')
  with assms show False by (simp add: get_def)
qed

text \<open>The second half of the claim holds: the other example is a generic info.\<close>

lemma info_generic_example:
  "fst (json_to_object exact
     [(''cmd'', JStr ''info''), (''text'', JStr ''Alice is now not valid nick!!'')])
   = Inr (Info \<lparr>info_cmd = ''info'', info_text = ''Alice is now not valid nick!!''\<rparr>)"
  by (simp add: classify_defs info_untyped_def is_changenick_def lockroom_text_def
      construct_def new_InfoPackage_def required_def literal_def exact_def)

subsection \<open>Totality\<close>














subsection \<open>Purity\<close>










section \<open>The session directory\<close>

lemma step_plain:
  "(case x of None \<Rightarrow> u | Some v \<Rightarrow> if v \<noteq> user_userid u then u\<lparr>user_userid := v\<rparr> else u) =
     u\<lparr>user_userid := (case x of None \<Rightarrow> user_userid u | Some v \<Rightarrow> v)\<rparr>"
  "(case y of None \<Rightarrow> u | Some v \<Rightarrow> if v \<noteq> user_uType u then u\<lparr>user_uType := v\<rparr> else u) =
     u\<lparr>user_uType := (case y of None \<Rightarrow> user_uType u | Some v \<Rightarrow> v)\<rparr>"
  "(case y of None \<Rightarrow> u | Some v \<Rightarrow> if v \<noteq> user_nick u then u\<lparr>user_nick := v\<rparr> else u) =
     u\<lparr>user_nick := (case y of None \<Rightarrow> user_nick u | Some v \<Rightarrow> v)\<rparr>"
  "(case x of None \<Rightarrow> u | Some v \<Rightarrow> if v \<noteq> user_level u then u\<lparr>user_level := v\<rparr> else u) =
     u\<lparr>user_level := (case x of None \<Rightarrow> user_level u | Some v \<Rightarrow> v)\<rparr>"
  "(case z of None \<Rightarrow> u | Some v \<Rightarrow> if v \<noteq> user_isBot u then u\<lparr>user_isBot := v\<rparr> else u) =
     u\<lparr>user_isBot := (case z of None \<Rightarrow> user_isBot u | Some v \<Rightarrow> v)\<rparr>"
  "(case y of None \<Rightarrow> u | Some v \<Rightarrow> if v \<noteq> user_hash u then u\<lparr>user_hash := v\<rparr> else u) =
     u\<lparr>user_hash := (case y of None \<Rightarrow> user_hash u | Some v \<Rightarrow> v)\<rparr>"
  "(case y of None \<Rightarrow> u | Some v \<Rightarrow> if Some v \<noteq> user_trip u then u\<lparr>user_trip := Some v\<rparr> else u) =
     u\<lparr>user_trip := (case y of None \<Rightarrow> user_trip u | Some v \<Rightarrow> Some v)\<rparr>"
  "(case y of None \<Rightarrow> u | Some v \<Rightarrow> if Some v \<noteq> user_channel u then u\<lparr>user_channel := Some v\<rparr> else u) =
     u\<lparr>user_channel := (case y of None \<Rightarrow> user_channel u | Some v \<Rightarrow> Some v)\<rparr>"
  "(if c \<noteq> user_color u then u\<lparr>user_color := c\<rparr> else u) = u\<lparr>user_color := c\<rparr>"
  by (simp_all split: option.split)

lemma set_fields_overwrite: "set_fields e u = overwrite e u"
  unfolding set_fields_def comp_apply step_plain
  by (rule User.equality) (simp_all add: overwrite_def split: option.split)

lemma overwrite_twice: "overwrite e (overwrite e u) = overwrite e u"
  by (rule User.equality) (simp_all add: overwrite_def split: option.split)

lemma update_target_twice:
  assumes "\<And>u. user_nick u = n \<Longrightarrow> user_nick (f u) = n" "\<And>u. f (f u) = f u"
  shows "update_target n f (update_target n f us) = update_target n f us"
  using assms by (induction us) auto

lemma update_user_twice: "update_user e (update_user e us) = update_user e us"
proof (cases "upd_nick e")
  case None
  then show ?thesis by (simp add: update_user_def)
next
  case (Some n)
  have "user_nick (set_fields e u) = n" for u
    using Some by (simp add: set_fields_overwrite overwrite_def)
  moreover have "set_fields e (set_fields e u) = set_fields e u" for u
    by (simp add: set_fields_overwrite overwrite_twice)
  ultimately show ?thesis
    using Some by (simp add: update_user_def update_target_twice)
qed

lemma length_update_target: "length (update_target n f us) = length us"
  by (induction us) auto

lemma update_target_nth:
  "i < length us \<Longrightarrow>
   update_target n f us ! i =
     (if user_nick (us ! i) = n \<and> (\<forall>j<i. user_nick (us ! j) \<noteq> n) then f (us ! i) else us ! i)"
proof (induction us arbitrary: i)
  case Nil
  then show ?case by simp
next
  case (Cons u us)
  show ?case
  proof (cases i)
    case 0
    then show ?thesis by simp
  next
    case (Suc k)
    with Cons.prems have k: "k < length us" by simp
    show ?thesis
    proof (cases "user_nick u = n")
      case True
      with Suc show ?thesis by auto
    next
      case False
      have c: "(user_nick ((u # us) ! i) = n \<and> (\<forall>j<i. user_nick ((u # us) ! j) \<noteq> n)) =
               (user_nick (us ! k) = n \<and> (\<forall>j<k. user_nick (us ! j) \<noteq> n))"
        using False Suc by (auto simp add: less_Suc_eq_0_disj)
      have "update_target n f (u # us) ! i = update_target n f us ! k"
        using False Suc by simp
      also have "\<dots> = (if user_nick (us ! k) = n \<and> (\<forall>j<k. user_nick (us ! j) \<noteq> n)
                        then f (us ! k) else us ! k)"
        by (rule Cons.IH[OF k])
      also have "\<dots> = (if user_nick ((u # us) ! i) = n \<and> (\<forall>j<i. user_nick ((u # us) ! j) \<noteq> n)
                        then f ((u # us) ! i) else (u # us) ! i)"
        unfolding c using Suc by auto
      finally show ?thesis .
    qed
  qed
qed

lemma internal_handler_UpdateUser:
  "fst (internal_handler E self (UpdateUser e)) = self\<lparr>users := update_user e (users self)\<rparr>"
  by (simp add: internal_handler_def sync_users_def)

text \<open>
  C9. Applying a user-attribute update twice leaves the directory as applying it once
  does. One application changes at most one participant, the first whose nickname is the
  update's; of that participant, every field present in the update takes the update's
  value and every absent field keeps its own; nobody else changes.
\<close>

theorem update_user_idempotent:
  "fst (internal_handler E (fst (internal_handler E self (UpdateUser e))) (UpdateUser e)) =
     fst (internal_handler E self (UpdateUser e)) \<and>
   users (fst (internal_handler E self (UpdateUser e))) = update_user e (users self) \<and>
   length (update_user e us) = length us \<and>
   (\<forall>i<length us.
      update_user e us ! i =
        (if upd_nick e = Some (user_nick (us ! i)) \<and> user_nick (us ! i) \<noteq> [] \<and>
            (\<forall>j<i. user_nick (us ! j) \<noteq> user_nick (us ! i))
         then overwrite e (us ! i) else us ! i))"
proof (intro conjI allI impI)
  show "fst (internal_handler E (fst (internal_handler E self (UpdateUser e))) (UpdateUser e)) =
        fst (internal_handler E self (UpdateUser e))"
    by (simp add: internal_handler_UpdateUser update_user_twice)
  show "users (fst (internal_handler E self (UpdateUser e))) = update_user e (users self)"
    by (simp add: internal_handler_UpdateUser)
  show "length (update_user e us) = length us"
    by (simp add: update_user_def length_update_target split: option.splits)
  show "update_user e us ! i =
        (if upd_nick e = Some (user_nick (us ! i)) \<and> user_nick (us ! i) \<noteq> [] \<and>
            (\<forall>j<i. user_nick (us ! j) \<noteq> user_nick (us ! i))
         then overwrite e (us ! i) else us ! i)" if "i < length us" for i
    using that
    by (auto simp add: update_user_def update_target_nth set_fields_overwrite split: option.splits)
qed

theorem update_user_idempotent_witness:
  "fst (internal_handler quiet
          (fst (internal_handler quiet
                  ((init_Bot ''bot'')\<lparr>users := [participant ''alice'' 1, participant ''bob'' 2]\<rparr>)
                  (UpdateUser (level_update ''bob'' 200))))
          (UpdateUser (level_update ''bob'' 200))) =
   fst (internal_handler quiet
          ((init_Bot ''bot'')\<lparr>users := [participant ''alice'' 1, participant ''bob'' 2]\<rparr>)
          (UpdateUser (level_update ''bob'' 200))) \<and>
   update_user (level_update ''bob'' 200) [participant ''alice'' 1, participant ''bob'' 2] ! 0 =
     participant ''alice'' 1 \<and>
   update_user (level_update ''bob'' 200) [participant ''alice'' 1, participant ''bob'' 2] ! 1 =
     (participant ''bob'' 2)\<lparr>user_color := Inr ''ff0000'', user_level := 200\<rparr>"
proof -
  note t = update_user_idempotent
    [of quiet "(init_Bot ''bot'')\<lparr>users := [participant ''alice'' 1, participant ''bob'' 2]\<rparr>"
        "level_update ''bob'' 200" "[participant ''alice'' 1, participant ''bob'' 2]"]
  note nth = t[THEN conjunct2, THEN conjunct2, THEN conjunct2, rule_format]
  have a: "update_user (level_update ''bob'' 200) [participant ''alice'' 1, participant ''bob'' 2] ! 0
           = participant ''alice'' 1"
    using nth[of 0] by (simp add: level_update_def participant_def)
  have b: "update_user (level_update ''bob'' 200) [participant ''alice'' 1, participant ''bob'' 2] ! 1
           = (participant ''bob'' 2)\<lparr>user_color := Inr ''ff0000'', user_level := 200\<rparr>"
    using nth[of 1] by (simp add: level_update_def participant_def overwrite_def)
  from t a b show ?thesis by blast
qed

section \<open>The receive loop\<close>

lemma nick_of_kinds:
  "(nick_of ev \<noteq> None) =
   (type_of ev \<in> {ChatPackage_t, EmotePackage_t, OnlineAddPackage_t, OnlineRemovePackage_t,
                   WhisperPackage_t})"
  by (cases ev) simp_all

lemma chat_envelope_classified:
  "fst (json_to_object exact (chat_envelope n t)) = Inr (Chat (chat_from n t))"
  by (simp add: json_to_object_def get_def chat_envelope_def chat_from_def construct_def
      new_ChatPackage_def required_def with_default_def literal_def utypes_def exact_def)

text \<open>
  C10. With \<open>ignore_self\<close> set, a chat, emote, user-joined, user-left or whisper event
  that carries the bot's own nickname is dropped before dispatch: no handler is called or
  started, and the bot, its directory included, stays as it was; the loop goes on with the
  next frame as if the package had not come.
\<close>

theorem own_events_dropped:
  assumes "fst (json_to_object V d) = Inr ev"
    and "type_of ev \<in> {ChatPackage_t, EmotePackage_t, OnlineAddPackage_t, OnlineRemovePackage_t,
                         WhisperPackage_t}"
    and "nick_of ev = Some (nick self)"
  shows "on_package E V True self d = (Receiving, self, []) \<and>
         run E V True self (Package d # rest) = run E V True self rest"
proof -
  from assms have a: "on_package E V True self d = (Receiving, self, [])"
    by (simp add: on_package_def)
  have "run E V True self (Package d # rest) = run E V True self rest"
  proof (cases "killed self")
    case True
    then show ?thesis by (cases rest) simp_all
  next
    case False
    then show ?thesis by (simp add: a split: prod.splits)
  qed
  with a show ?thesis by simp
qed

theorem own_events_dropped_witness:
  "on_package quiet exact True
     ((init_Bot ''bot'')\<lparr>event_functions := [(GLOBAL, [Internal, Fn 3])],
                          commands := [(''Ping'', 4)],
                          users := [participant ''bot'' 7]\<rparr>)
     (chat_envelope ''bot'' ''Ping'') =
   (Receiving,
    (init_Bot ''bot'')\<lparr>event_functions := [(GLOBAL, [Internal, Fn 3])],
                         commands := [(''Ping'', 4)],
                         users := [participant ''bot'' 7]\<rparr>, []) \<and>
   on_package quiet exact False
     ((init_Bot ''bot'')\<lparr>event_functions := [(GLOBAL, [Internal, Fn 3])],
                          commands := [(''Ping'', 4)],
                          users := [participant ''bot'' 7]\<rparr>)
     (chat_envelope ''bot'' ''Ping'') \<noteq>
   (Receiving,
    (init_Bot ''bot'')\<lparr>event_functions := [(GLOBAL, [Internal, Fn 3])],
                         commands := [(''Ping'', 4)],
                         users := [participant ''bot'' 7]\<rparr>, [])"
proof -
  let ?s = "(init_Bot ''bot'')\<lparr>event_functions := [(GLOBAL, [Internal, Fn 3])],
                          commands := [(''Ping'', 4)],
                          users := [participant ''bot'' 7]\<rparr> :: nat Bot"
  have n: "nick_of (Chat (chat_from ''bot'' ''Ping'')) = Some (nick ?s)"
    by (simp add: chat_from_def init_Bot_def)
  have k: "type_of (Chat (chat_from ''bot'' ''Ping'')) \<in>
             {ChatPackage_t, EmotePackage_t, OnlineAddPackage_t, OnlineRemovePackage_t,
              WhisperPackage_t}"
    by simp
  note t = own_events_dropped [OF chat_envelope_classified k n, of quiet "[]"]
  have "on_package quiet exact False ?s (chat_envelope ''bot'' ''Ping'') \<noteq> (Receiving, ?s, [])"
    by (simp add: on_package_def chat_envelope_classified dispatch_def run_events_def GLOBAL_def
        init_Bot_def is_coroutine_def quiet_def internal_handler_def sync_users_def
        chat_from_def startswith_def get_user_by_nick_def get_users_by_nick_def participant_def)
  with t show ?thesis by simp
qed

section \<open>The command router\<close>













section \<open>Plugins\<close>

lemma delete_as_filter: "AList.delete k cs = filter (\<lambda>(k', v). k' \<noteq> k) cs"
  by (induction cs) auto

lemma delete_if_present:
  "(if k \<in> fst ` set cs then AList.delete k cs else cs) = filter (\<lambda>(k', v). k' \<noteq> k) cs"
proof (cases "k \<in> fst ` set cs")
  case True
  then show ?thesis by (simp add: delete_as_filter)
next
  case False
  then have "AList.delete k cs = cs" by simp
  with False show ?thesis by (simp add: delete_as_filter[symmetric])
qed

lemma remove_commands_filter:
  "remove_commands ks cs = filter (\<lambda>(k, v). k \<notin> set ks) cs"
proof (induction ks arbitrary: cs)
  case Nil
  then show ?case by simp
next
  case (Cons k ks)
  have "remove_commands (k # ks) cs = remove_commands ks (filter (\<lambda>(k', v). k' \<noteq> k) cs)"
    by (simp only: remove_commands.simps delete_if_present)
  also have "\<dots> = filter (\<lambda>(k', v). k' \<notin> set ks) (filter (\<lambda>(k', v). k' \<noteq> k) cs)"
    by (rule Cons.IH)
  also have "\<dots> = filter (\<lambda>(k', v). k' \<notin> set (k # ks)) cs"
    by (auto simp add: case_prod_unfold intro: filter_cong)
  finally show ?case .
qed

lemma set_new_commands:
  "set (new_commands before after) = fst ` set after - fst ` set before"
  by (auto simp add: new_commands_def)

lemma new_handlers_keys: "fst ` set (new_handlers before efs) \<subseteq> fst ` set efs"
  by (induction before efs rule: new_handlers.induct) (auto simp add: Let_def)

lemma distinct_new_handlers:
  "distinct (map fst efs) \<Longrightarrow> distinct (map fst (new_handlers before efs))"
proof (induction before efs rule: new_handlers.induct)
  case (1 before)
  then show ?case by simp
next
  case (2 before event_type handlers rest)
  have "event_type \<notin> fst ` set (new_handlers before rest)"
    using 2(3) new_handlers_keys[of before rest] by auto
  with 2 show ?case by (auto simp add: Let_def)
qed

lemma map_of_new_handlers:
  assumes "distinct (map fst efs)"
  shows "map_of (new_handlers before efs) sel =
           (case map_of efs sel of
              None \<Rightarrow> None
            | Some fs \<Rightarrow>
                (let n = (case map_of before sel of None \<Rightarrow> 0 | Some n \<Rightarrow> n)
                 in if length fs > n then Some (drop n fs) else None))"
  using assms
proof (induction before efs rule: new_handlers.induct)
  case (1 before)
  then show ?case by simp
next
  case (2 before event_type handlers rest)
  have out: "map_of (new_handlers before rest) event_type = None"
    using 2(3) new_handlers_keys[of before rest]
    by (auto simp add: map_of_eq_None_iff)
  from 2 out show ?case by (auto simp add: Let_def)
qed

lemma map_of_lengths:
  "map_of (map (\<lambda>(k, v). (k, length v)) efs) sel = map_option length (map_of efs sel)"
  by (induction efs) auto

lemma mset_remove_each: "mset (remove_each hs fs) = mset fs - mset hs"
proof (induction hs arbitrary: fs)
  case Nil
  then show ?case by simp
next
  case (Cons h hs)
  have "mset (if h \<in> set fs then remove1 h fs else fs) = mset fs - {#h#}"
    by (simp add: diff_single_trivial)
  with Cons.IH show ?case
    by (simp del: mset_remove1)
qed

lemma remove_each_tail:
  "set xs \<inter> set ys = {} \<Longrightarrow> remove_each ys (xs @ ys) = xs"
proof (induction ys arbitrary: xs)
  case Nil
  then show ?case by simp
next
  case (Cons y ys)
  then have "y \<notin> set xs" by auto
  then have "remove1 y (xs @ y # ys) = xs @ ys"
    by (simp add: remove1_append)
  with Cons show ?case by simp
qed

lemma remove_handlers_keys: "map fst (remove_handlers recs efs) = map fst efs"
proof (induction recs arbitrary: efs)
  case Nil
  then show ?case by simp
next
  case (Cons r recs)
  obtain k hs where r: "r = (k, hs)" by (cases r)
  show ?case
  proof (cases "map_of efs k")
    case None
    with Cons r show ?thesis by simp
  next
    case (Some fs)
    then have "k \<in> set (map fst efs)"
      by (metis map_of_eq_None_iff option.distinct(1) set_map)
    with Cons r Some show ?thesis by (simp add: AList.update_keys)
  qed
qed

lemma map_of_remove_handlers:
  assumes "distinct (map fst recs)"
  shows "map_of (remove_handlers recs efs) sel =
           (case map_of efs sel of
              None \<Rightarrow> None
            | Some fs \<Rightarrow> Some (case map_of recs sel of None \<Rightarrow> fs | Some hs \<Rightarrow> remove_each hs fs))"
  using assms
proof (induction recs arbitrary: efs)
  case Nil
  then show ?case by (simp split: option.splits)
next
  case (Cons r recs)
  obtain k hs where r: "r = (k, hs)" by (cases r)
  from Cons.prems r have d: "distinct (map fst recs)" and nk: "map_of recs k = None"
    by (auto simp add: map_of_eq_None_iff)
  show ?case
  proof (cases "map_of efs k")
    case None
    with Cons.IH[OF d] r nk show ?thesis
      by (auto split: option.splits)
  next
    case (Some fs)
    with Cons.IH[OF d] r nk show ?thesis
      by (auto simp add: AList.update_conv' split: option.splits)
  qed
qed

lemma load_plugin_success:
  assumes "init_function = Some f \<or> (init_function = None \<and> import plugin_name = PluginInit f)"
    and "f self = (False, s1)"
  shows "load_plugin import self plugin_name init_function =
           s1\<lparr>loaded_plugins :=
                AList.update plugin_name
                  \<lparr> plugin_commands = new_commands (commands self) (commands s1),
                    plugin_handlers =
                      new_handlers (map (\<lambda>(k, v). (k, length v)) (event_functions self))
                        (event_functions s1) \<rparr>
                  (loaded_plugins s1)\<rparr>"
  using assms by (auto simp add: load_plugin_def Let_def)

lemma load_plugin_failure:
  assumes "init_function = Some f \<or> (init_function = None \<and> import plugin_name = PluginInit f)"
    and "f self = (True, s1)"
  shows "load_plugin import self plugin_name init_function = s1"
  using assms by (auto simp add: load_plugin_def Let_def)

lemma recorded_handlers:
  assumes "distinct (map fst (event_functions s1))"
  shows "map_of (new_handlers (map (\<lambda>(k, v). (k, length v)) (event_functions self))
                   (event_functions s1)) sel =
           (if length (handlers_of s1 sel) > length (handlers_of self sel)
            then Some (drop (length (handlers_of self sel)) (handlers_of s1 sel)) else None)"
  by (simp add: map_of_new_handlers[OF assms] map_of_lengths handlers_of_def Let_def
      split: option.splits)

lemma handlers_after_unload:
  assumes "distinct (map fst (event_functions s1))"
  shows "(case map_of
              (remove_handlers
                 (new_handlers (map (\<lambda>(k, v). (k, length v)) (event_functions self))
                    (event_functions s1))
                 (event_functions s1)) sel of None \<Rightarrow> [] | Some fs \<Rightarrow> fs) =
         (if length (handlers_of s1 sel) > length (handlers_of self sel)
          then remove_each (drop (length (handlers_of self sel)) (handlers_of s1 sel))
                 (handlers_of s1 sel)
          else handlers_of s1 sel)"
proof -
  have "distinct (map fst (new_handlers (map (\<lambda>(k, v). (k, length v)) (event_functions self))
                    (event_functions s1)))"
    using assms by (rule distinct_new_handlers)
  from map_of_remove_handlers[OF this] recorded_handlers[OF assms, of self sel]
  show ?thesis
    by (simp add: handlers_of_def split: option.splits)
qed

lemma mset_remove_tail: "mset (remove_each (drop n fs) fs) = mset (take n fs)"
proof -
  have "mset fs = mset (take n fs) + mset (drop n fs)"
    by (metis append_take_drop_id mset_append)
  then show ?thesis by (simp add: mset_remove_each)
qed

lemma remove_tail_exact:
  assumes "set (take n fs) \<inter> set (drop n fs) = {}"
  shows "remove_each (drop n fs) fs = take n fs"
  using remove_each_tail[OF assms] by simp

text \<open>
  C8. The claim: loading records the command prefixes and the handlers that the
  initializer added, and unloading removes exactly those and leaves every earlier
  registration untouched. \<open>unload_plugin\<close> removes a recorded handler with
  \<open>list.remove\<close>, which takes out the first equal element of the list: when the function
  a plugin registers is already in the list, ahead of another handler, it is the earlier
  registration that goes, and the earlier handlers are left in another order.
\<close>

theorem plugin_round_trip_counterexample:
  "handlers_of ((init_Bot ''bot'')\<lparr>event_functions := [(GLOBAL, [Internal, Fn 1, Fn 2])]\<rparr>) GLOBAL
     = [Internal, Fn (1::nat), Fn 2] \<and>
   handlers_of
     (unload_plugin
        (load_plugin (\<lambda>n. ImportError)
           ((init_Bot ''bot'')\<lparr>event_functions := [(GLOBAL, [Internal, Fn 1, Fn 2])]\<rparr>)
           ''x'' (Some (\<lambda>s. (False, register_global_function (Fn 1) s))))
        ''x'') GLOBAL
     = [Internal, Fn 2, Fn 1]"
  by (simp add: handlers_of_def unload_plugin_def load_plugin_def register_global_function_def
      register_event_function_def init_Bot_def GLOBAL_def new_commands_def Let_def)

text \<open>
  C8, amended. When the initializer of a plugin returns, \<open>load_plugin\<close> records under the
  plugin's id the command prefixes present after and not before, and for each selector
  whose handler list is longer than before the part of the list beyond its earlier length.
  Unloading the plugin next deletes the record and no other, removes the commands under
  the recorded prefixes and no other, keeps every selector, and removes from each
  selector's list one occurrence of each recorded handler: what is left are the
  handlers of the first part of the list, as many times each, and in the same order
  when no recorded handler is also among them.
\<close>

theorem plugin_round_trip:
  assumes "init_function = Some f \<or> (init_function = None \<and> import plugin_name = PluginInit f)"
    and "f self = (False, s1)"
    and "dicts s1"
    and "s2 = load_plugin import self plugin_name init_function"
    and "s3 = unload_plugin s2 plugin_name"
  shows "(\<exists>info. map_of (loaded_plugins s2) plugin_name = Some info \<and>
            set (plugin_commands info) = fst ` set (commands s1) - fst ` set (commands self) \<and>
            (\<forall>sel. map_of (plugin_handlers info) sel =
               (if length (handlers_of s1 sel) > length (handlers_of self sel)
                then Some (drop (length (handlers_of self sel)) (handlers_of s1 sel)) else None))) \<and>
         commands s3 = filter (\<lambda>(P, h). P \<in> fst ` set (commands self)) (commands s1) \<and>
         map fst (event_functions s3) = map fst (event_functions s1) \<and>
         (\<forall>sel. mset (handlers_of s3 sel) =
                  mset (take (length (handlers_of self sel)) (handlers_of s1 sel)) \<and>
                (set (take (length (handlers_of self sel)) (handlers_of s1 sel)) \<inter>
                 set (drop (length (handlers_of self sel)) (handlers_of s1 sel)) = {}
                 \<longrightarrow> handlers_of s3 sel =
                       take (length (handlers_of self sel)) (handlers_of s1 sel))) \<and>
         loaded_plugins s3 = AList.delete plugin_name (loaded_plugins s1) \<and>
         nick s3 = nick s1 \<and> users s3 = users s1 \<and> killed s3 = killed s1"
proof -
  let ?info = "\<lparr> plugin_commands = new_commands (commands self) (commands s1),
                  plugin_handlers =
                    new_handlers (map (\<lambda>(k, v). (k, length v)) (event_functions self))
                      (event_functions s1) \<rparr>"
  from assms(3) have de: "distinct (map fst (event_functions s1))"
    by (simp add: dicts_def)
  have s2: "s2 = s1\<lparr>loaded_plugins := AList.update plugin_name ?info (loaded_plugins s1)\<rparr>"
    using load_plugin_success[of init_function f import plugin_name self s1] assms(1,2,4) by simp
  then have rec: "map_of (loaded_plugins s2) plugin_name = Some ?info"
    by (simp add: AList.update_conv')
  have s3: "s3 = s2\<lparr> commands := remove_commands (plugin_commands ?info) (commands s2),
                      event_functions := remove_handlers (plugin_handlers ?info) (event_functions s2),
                      loaded_plugins := AList.delete plugin_name (loaded_plugins s2) \<rparr>"
    using assms(5) rec by (simp add: unload_plugin_def)
  have a: "\<exists>info. map_of (loaded_plugins s2) plugin_name = Some info \<and>
            set (plugin_commands info) = fst ` set (commands s1) - fst ` set (commands self) \<and>
            (\<forall>sel. map_of (plugin_handlers info) sel =
               (if length (handlers_of s1 sel) > length (handlers_of self sel)
                then Some (drop (length (handlers_of self sel)) (handlers_of s1 sel)) else None))"
    using rec recorded_handlers[OF de, of self] by (simp add: set_new_commands)
  have "commands s3 = filter (\<lambda>(k, v). k \<notin> set (new_commands (commands self) (commands s1))) (commands s1)"
    using s3 s2 by (simp add: remove_commands_filter)
  also have "\<dots> = filter (\<lambda>(P, h). P \<in> fst ` set (commands self)) (commands s1)"
    by (rule filter_cong) (force simp add: set_new_commands)+
  finally have b: "commands s3 = filter (\<lambda>(P, h). P \<in> fst ` set (commands self)) (commands s1)" .
  have c: "map fst (event_functions s3) = map fst (event_functions s1)"
    using s3 s2 by (simp add: remove_handlers_keys)
  have h3: "handlers_of s3 sel =
         (if length (handlers_of s1 sel) > length (handlers_of self sel)
          then remove_each (drop (length (handlers_of self sel)) (handlers_of s1 sel))
                 (handlers_of s1 sel)
          else handlers_of s1 sel)" for sel
    using handlers_after_unload[OF de, of self sel] s3 s2
    by (simp add: handlers_of_def)
  have d1: "mset (handlers_of s3 sel) =
              mset (take (length (handlers_of self sel)) (handlers_of s1 sel))" for sel
    by (simp add: h3 mset_remove_tail)
  have d2: "handlers_of s3 sel = take (length (handlers_of self sel)) (handlers_of s1 sel)"
    if "set (take (length (handlers_of self sel)) (handlers_of s1 sel)) \<inter>
        set (drop (length (handlers_of self sel)) (handlers_of s1 sel)) = {}" for sel
    using that by (simp add: h3 remove_tail_exact)
  have e: "loaded_plugins s3 = AList.delete plugin_name (loaded_plugins s1)"
    using s3 s2 by (simp add: AList.delete_update_same)
  have g: "nick s3 = nick s1 \<and> users s3 = users s1 \<and> killed s3 = killed s1"
    using s3 s2 by simp
  from a b c d1 d2 e g show ?thesis by blast
qed

theorem plugin_round_trip_witness:
  "commands (unload_plugin (load_plugin (\<lambda>n. ImportError) running_bot ''x'' (Some sample_init)) ''x'')
     = commands running_bot \<and>
   handlers_of (unload_plugin (load_plugin (\<lambda>n. ImportError) running_bot ''x'' (Some sample_init)) ''x'')
     GLOBAL = handlers_of running_bot GLOBAL \<and>
   loaded_plugins
     (unload_plugin (load_plugin (\<lambda>n. ImportError) running_bot ''x'' (Some sample_init)) ''x'')
     = loaded_plugins running_bot \<and>
   (\<exists>info. map_of (loaded_plugins (load_plugin (\<lambda>n. ImportError) running_bot ''x'' (Some sample_init)))
             ''x'' = Some info \<and>
           set (plugin_commands info) = {''.hv a'', ''.hv b''} \<and>
           map_of (plugin_handlers info) GLOBAL = Some [Fn 9])"
proof -
  let ?s1 = "running_bot\<lparr>event_functions := [(GLOBAL, [Internal, Fn 1, Fn 9])],
                          commands := [(''Ping'', 4), (''.hv a'', 7), (''.hv b'', 8)]\<rparr>"
  let ?s2 = "load_plugin (\<lambda>n. ImportError) running_bot ''x'' (Some sample_init)"
  let ?s3 = "unload_plugin ?s2 ''x''"
  have i: "Some sample_init = Some sample_init \<or>
           (Some sample_init = None \<and> (\<lambda>n. ImportError) ''x'' = PluginInit sample_init)"
    by simp
  have r: "sample_init running_bot = (False, ?s1)"
    by (simp add: sample_init_def running_bot_def register_global_function_def
        register_event_function_def register_command_def GLOBAL_def)
  have d: "dicts ?s1"
    by (simp add: dicts_def running_bot_def)
  note t = plugin_round_trip [OF i r d refl refl]
  have h0: "handlers_of running_bot GLOBAL = [Internal, Fn 1]"
    by (simp add: handlers_of_def running_bot_def)
  have h1: "handlers_of ?s1 GLOBAL = [Internal, Fn 1, Fn 9]"
    by (simp add: handlers_of_def running_bot_def)
  have a: "commands ?s3 = commands running_bot"
    using t by (simp add: running_bot_def)
  have dj: "set (take (length (handlers_of running_bot GLOBAL)) (handlers_of ?s1 GLOBAL)) \<inter>
        set (drop (length (handlers_of running_bot GLOBAL)) (handlers_of ?s1 GLOBAL)) = {}"
    unfolding h0 h1 by simp
  from t have "\<forall>sel. mset (handlers_of ?s3 sel) =
                  mset (take (length (handlers_of running_bot sel)) (handlers_of ?s1 sel)) \<and>
                (set (take (length (handlers_of running_bot sel)) (handlers_of ?s1 sel)) \<inter>
                 set (drop (length (handlers_of running_bot sel)) (handlers_of ?s1 sel)) = {}
                 \<longrightarrow> handlers_of ?s3 sel =
                       take (length (handlers_of running_bot sel)) (handlers_of ?s1 sel))"
    by blast
  from this[rule_format, of GLOBAL, THEN conjunct2, rule_format, OF dj]
  have b: "handlers_of ?s3 GLOBAL = handlers_of running_bot GLOBAL"
    unfolding h0 h1 by simp
  have c: "loaded_plugins ?s3 = loaded_plugins running_bot"
    using t by (simp add: running_bot_def)
  from t obtain info where
    info: "map_of (loaded_plugins ?s2) ''x'' = Some info"
      "set (plugin_commands info) = fst ` set (commands ?s1) - fst ` set (commands running_bot)"
      "\<forall>sel. map_of (plugin_handlers info) sel =
               (if length (handlers_of ?s1 sel) > length (handlers_of running_bot sel)
                then Some (drop (length (handlers_of running_bot sel)) (handlers_of ?s1 sel))
                else None)"
    by blast
  from info(2) have e: "set (plugin_commands info) = {''.hv a'', ''.hv b''}"
    by (auto simp add: running_bot_def)
  from info(3)[rule_format, of GLOBAL] have g: "map_of (plugin_handlers info) GLOBAL = Some [Fn 9]"
    unfolding h0 h1 by simp
  from a b c info(1) e g show ?thesis by blast
qed

section \<open>Handler failures\<close>

lemma handled_append: "handled (xs @ ys) = handled xs @ handled ys"
  by (induction xs rule: handled.induct) simp_all

lemma handled_route: "handled (route E self via text sender ev cmds) = []"
  by (induction cmds) (simp_all add: handled_append Let_def split: option.splits sum.splits)

lemma handled_internal: "handled (snd (internal_handler E self ev)) = []"
  by (simp add: internal_handler_def Let_def handled_append handled_route split: event.splits)

lemma run_handlers_all:
  "mset (handled (fst (run_handlers E fs args))) + mset (map fst (snd (run_handlers E fs args))) =
   mset fs"
proof (induction fs)
  case Nil
  then show ?case by simp
next
  case (Cons f fs)
  then show ?case
    by (cases f) (auto simp add: is_coroutine_def handled_append split: prod.splits)
qed

lemma run_tasks_all: "handled (fst (snd (run_tasks E self tasks))) = map fst tasks"
proof (induction tasks arbitrary: self)
  case Nil
  then show ?case by simp
next
  case (Cons t tasks)
  obtain f args where t: "t = (f, args)" by (cases t)
  have IH: "handled (fst (snd (run_tasks E s tasks))) = map fst tasks" for s
    by (rule Cons.IH)
  show ?case
  proof (cases f)
    case Internal
    show ?thesis
    proof (cases "\<exists>event. args = [event]")
      case True
      then obtain event where a: "args = [event]" ..
      obtain self1 acts1 where ih: "internal_handler E self event = (self1, acts1)"
        by (cases "internal_handler E self event")
      then have "handled acts1 = []"
        using handled_internal[of E self event] by simp
      moreover obtain self2 acts2 failed where r: "run_tasks E self1 tasks = (self2, acts2, failed)"
        by (cases "run_tasks E self1 tasks")
      moreover from r have "handled acts2 = map fst tasks"
        using IH[of self1] by simp
      ultimately show ?thesis
        using t Internal a ih by (simp add: handled_append)
    next
      case False
      obtain self2 acts2 failed where r: "run_tasks E self tasks = (self2, acts2, failed)"
        by (cases "run_tasks E self tasks")
      then have "handled acts2 = map fst tasks"
        using IH[of self] by simp
      with False t Internal r show ?thesis
        by (cases args rule: list.exhaust; simp split: list.splits)
    qed
  next
    case (Fn h)
    obtain self2 acts2 failed where r: "run_tasks E self tasks = (self2, acts2, failed)"
      by (cases "run_tasks E self tasks")
    then have "handled acts2 = map fst tasks"
      using IH[of self] by simp
    with t Fn r show ?thesis by simp
  qed
qed

lemma run_handlers_tasks:
  "set (snd (run_handlers E fs args)) = {(f, args) | f. f \<in> set fs \<and> is_coroutine E f}"
proof (induction fs)
  case Nil
  then show ?case by simp
next
  case (Cons f fs)
  then show ?case
    by (cases f) (auto simp add: is_coroutine_def split: prod.splits)
qed

lemma run_tasks_failed:
  "snd (snd (run_tasks E self tasks)) =
   (\<exists>(f, args) \<in> set tasks.
      case f of Fn h \<Rightarrow> handler_raises E h args | Internal \<Rightarrow> \<not> (\<exists>event. args = [event]))"
proof (induction tasks arbitrary: self)
  case Nil
  then show ?case by simp
next
  case (Cons t tasks)
  obtain f args where t: "t = (f, args)" by (cases t)
  have IH: "snd (snd (run_tasks E s tasks)) =
     (\<exists>(f, args) \<in> set tasks.
        case f of Fn h \<Rightarrow> handler_raises E h args | Internal \<Rightarrow> \<not> (\<exists>event. args = [event]))" for s
    by (rule Cons.IH)
  show ?case
  proof (cases f)
    case Internal
    show ?thesis
    proof (cases "\<exists>event. args = [event]")
      case True
      then obtain event where a: "args = [event]" ..
      obtain self1 acts1 where ih: "internal_handler E self event = (self1, acts1)"
        by (cases "internal_handler E self event")
      obtain self2 acts2 failed where r: "run_tasks E self1 tasks = (self2, acts2, failed)"
        by (cases "run_tasks E self1 tasks")
      with IH[of self1] t Internal a ih show ?thesis by simp
    next
      case False
      obtain self2 acts2 failed where r: "run_tasks E self tasks = (self2, acts2, failed)"
        by (cases "run_tasks E self tasks")
      with False t Internal show ?thesis
        by (cases args rule: list.exhaust; simp split: list.splits)
    qed
  next
    case (Fn h)
    obtain self2 acts2 failed where r: "run_tasks E self tasks = (self2, acts2, failed)"
      by (cases "run_tasks E self tasks")
    with IH[of self] t Fn show ?thesis by simp
  qed
qed

text \<open>
  Whatever its handlers do, a dispatch calls or starts each handler registered for the
  event, the global ones and the ones for its type, once each.
\<close>

lemma dispatch_all_handled:
  "mset (handled (snd (snd (dispatch E self ev)))) =
   mset (handlers_of self GLOBAL) + mset (handlers_of self (Class (type_of ev)))"
proof -
  obtain a1 t1 where g: "run_events E self GLOBAL [ev] = (a1, t1)"
    by (cases "run_events E self GLOBAL [ev]")
  obtain a2 t2 where c: "run_events E self (Class (type_of ev)) [ev] = (a2, t2)"
    by (cases "run_events E self (Class (type_of ev)) [ev]")
  obtain s a3 failed where r: "run_tasks E self (t1 @ t2) = (s, a3, failed)"
    by (cases "run_tasks E self (t1 @ t2)")
  have 1: "mset (handled a1) + mset (map fst t1) = mset (handlers_of self GLOBAL)"
    using run_handlers_all[of E "handlers_of self GLOBAL" "[ev]"] g
    by (simp add: run_events_def handlers_of_def)
  have 2: "mset (handled a2) + mset (map fst t2) = mset (handlers_of self (Class (type_of ev)))"
    using run_handlers_all[of E "handlers_of self (Class (type_of ev))" "[ev]"] c
    by (simp add: run_events_def handlers_of_def)
  have 3: "handled a3 = map fst (t1 @ t2)"
    using run_tasks_all[of E self "t1 @ t2"] r by simp
  have "snd (snd (dispatch E self ev)) = a1 @ a2 @ a3"
    using g c r by (simp add: dispatch_def)
  then have "mset (handled (snd (snd (dispatch E self ev)))) =
             mset (handled a1) + mset (handled a2) + (mset (map fst t1) + mset (map fst t2))"
    using 3 by (simp add: handled_append)
  with 1 2 show ?thesis by (simp add: ac_simps)
qed

text \<open>
  The receive loop survives a dispatch exactly when no coroutine handler of the event
  raises.
\<close>

lemma dispatch_status:
  "fst (dispatch E self ev) =
   (if \<exists>h. Fn h \<in> set (handlers_of self GLOBAL @ handlers_of self (Class (type_of ev))) \<and>
            iscoroutinefunction E h \<and> handler_raises E h [ev]
    then Failed else Receiving)"
proof -
  obtain a1 t1 where g: "run_events E self GLOBAL [ev] = (a1, t1)"
    by (cases "run_events E self GLOBAL [ev]")
  obtain a2 t2 where c: "run_events E self (Class (type_of ev)) [ev] = (a2, t2)"
    by (cases "run_events E self (Class (type_of ev)) [ev]")
  obtain s a3 failed where r: "run_tasks E self (t1 @ t2) = (s, a3, failed)"
    by (cases "run_tasks E self (t1 @ t2)")
  have t1: "set t1 = {(f, [ev]) | f. f \<in> set (handlers_of self GLOBAL) \<and> is_coroutine E f}"
    using run_handlers_tasks[of E "handlers_of self GLOBAL" "[ev]"] g
    by (simp add: run_events_def handlers_of_def)
  have t2: "set t2 = {(f, [ev]) | f. f \<in> set (handlers_of self (Class (type_of ev))) \<and> is_coroutine E f}"
    using run_handlers_tasks[of E "handlers_of self (Class (type_of ev))" "[ev]"] c
    by (simp add: run_events_def handlers_of_def)
  have "failed =
     (\<exists>(f, args) \<in> set (t1 @ t2).
        case f of Fn h \<Rightarrow> handler_raises E h args | Internal \<Rightarrow> \<not> (\<exists>event. args = [event]))"
    using run_tasks_failed[of E self "t1 @ t2"] r by simp
  also have "\<dots> = (\<exists>h. Fn h \<in> set (handlers_of self GLOBAL @ handlers_of self (Class (type_of ev))) \<and>
            iscoroutinefunction E h \<and> handler_raises E h [ev])"
  proof
    assume "\<exists>(f, args) \<in> set (t1 @ t2).
        case f of Fn h \<Rightarrow> handler_raises E h args | Internal \<Rightarrow> \<not> (\<exists>event. args = [event])"
    then obtain f args where m: "(f, args) \<in> set t1 \<union> set t2"
      and q: "case f of Fn h \<Rightarrow> handler_raises E h args | Internal \<Rightarrow> \<not> (\<exists>event. args = [event])"
      by auto
    from m t1 t2 have a: "args = [ev]"
      and f: "f \<in> set (handlers_of self GLOBAL @ handlers_of self (Class (type_of ev)))"
      and co: "is_coroutine E f"
      by auto
    show "\<exists>h. Fn h \<in> set (handlers_of self GLOBAL @ handlers_of self (Class (type_of ev))) \<and>
            iscoroutinefunction E h \<and> handler_raises E h [ev]"
    proof (cases f)
      case Internal
      with q a show ?thesis by simp
    next
      case (Fn h)
      with q a f co show ?thesis by (auto simp add: is_coroutine_def)
    qed
  next
    assume "\<exists>h. Fn h \<in> set (handlers_of self GLOBAL @ handlers_of self (Class (type_of ev))) \<and>
            iscoroutinefunction E h \<and> handler_raises E h [ev]"
    then obtain h where h: "Fn h \<in> set (handlers_of self GLOBAL @ handlers_of self (Class (type_of ev)))"
      "iscoroutinefunction E h" "handler_raises E h [ev]"
      by blast
    then have "(Fn h, [ev]) \<in> set (t1 @ t2)"
      using t1 t2 by (auto simp add: is_coroutine_def)
    with h(3) show "\<exists>(f, args) \<in> set (t1 @ t2).
        case f of Fn h \<Rightarrow> handler_raises E h args | Internal \<Rightarrow> \<not> (\<exists>event. args = [event])"
      by force
  qed
  finally have "failed = (\<exists>h. Fn h \<in> set (handlers_of self GLOBAL @ handlers_of self (Class (type_of ev))) \<and>
            iscoroutinefunction E h \<and> handler_raises E h [ev])" .
  moreover have "fst (dispatch E self ev) = (if failed then Failed else Receiving)"
    using g c r by (simp add: dispatch_def)
  ultimately show ?thesis by simp
qed

text \<open>A plain function that raises is caught: the loop goes through both messages.\<close>

lemma plain_handler_failure_isolated:
  "run faulty exact True (chat_bot 2) two_chats =
     (Receiving, chat_bot 2,
      [Called (Fn 2) [Chat (chat_from ''alice'' ''one'')], Warning,
       Started Internal [Chat (chat_from ''alice'' ''one'')],
       Started (Fn 3) [Chat (chat_from ''alice'' ''one'')],
       Called (Fn 2) [Chat (chat_from ''alice'' ''two'')], Warning,
       Started Internal [Chat (chat_from ''alice'' ''two'')],
       Started (Fn 3) [Chat (chat_from ''alice'' ''two'')]])"
  by (simp add: two_chats_def on_package_def chat_envelope_classified dispatch_def run_events_def
      chat_bot_def GLOBAL_def is_coroutine_def faulty_def internal_handler_def sync_users_def
      chat_from_def)

text \<open>
  C4. The claim: an exception thrown inside any handler, plain or coroutine, is caught
  at the dispatch boundary, the other handlers of the event still run and the receive
  loop goes on to the next envelope. The \<open>try\<close> of \<open>_run_events\<close> covers the creation of
  the task only: a coroutine handler raises inside its task, the task group cancels the
  loop and \<open>run\<close> ends with the group's exception. With handler 1, a coroutine function
  that raises, registered for chat messages, the first of two messages ends the loop and
  the second is never dispatched.
\<close>

theorem coroutine_handler_failure_ends_loop:
  "run faulty exact True (chat_bot 1) two_chats =
     (Failed, chat_bot 1,
      [Started Internal [Chat (chat_from ''alice'' ''one'')],
       Started (Fn 1) [Chat (chat_from ''alice'' ''one'')],
       Started (Fn 3) [Chat (chat_from ''alice'' ''one'')]])"
  by (simp add: two_chats_def on_package_def chat_envelope_classified dispatch_def run_events_def
      chat_bot_def GLOBAL_def is_coroutine_def faulty_def internal_handler_def sync_users_def
      chat_from_def)

end
